theory Spec2Isabelle
  imports Main "HOL-Library.Finite_Map"
begin

section \<open>Python values\<close>

text \<open>
  A Python \<open>str\<close> is a sequence of Unicode code points; slicing and \<open>len\<close> count code
  points. It is modelled as a list of natural numbers. \<open>str\<close> lifts an ASCII literal.
\<close>

type_synonym pystr = "nat list"

definition str :: "string \<Rightarrow> pystr" where
  "str s = map of_char s"

text \<open>Truthiness of an \<open>Optional[str]\<close>: \<open>None\<close> and the empty string are false.\<close>

fun truthy :: "pystr option \<Rightarrow> bool" where
  "truthy None = False"
| "truthy (Some s) = (s \<noteq> [])"

text \<open>The slice \<open>s[:n]\<close>; a negative bound counts from the end.\<close>

definition slice_to :: "int \<Rightarrow> 'a list \<Rightarrow> 'a list" where
  "slice_to n xs = (if 0 \<le> n then take (nat n) xs else take (length xs - nat (- n)) xs)"

section \<open>cache\_manager.py\<close>

text \<open>
  The cache directory holds one file per cache key. A file written by \<open>set\<close> is the JSON
  object with the keys url, content and timestamp (\<open>Entry\<close>); the timestamp is the clock
  reading in microseconds, which \<open>isoformat\<close> and \<open>fromisoformat\<close> take to text and back.
  A file put there by anything else may also be a JSON object with a timestamp and no
  content (\<open>NoContent\<close>), or a file on which \<open>json.load\<close>, the timestamp lookup or
  \<open>fromisoformat\<close> raises (\<open>Malformed\<close>).
\<close>

datatype cache_file =
    Entry (e_url: pystr) (e_content: pystr) (e_timestamp: int)
  | NoContent int
  | Malformed

text \<open>
  \<open>files\<close> is the content of \<open>cache_dir\<close>, by file stem. \<open>writable\<close> says whether
  \<open>open(cache_path, 'w')\<close> succeeds, and \<open>removable\<close> whether \<open>unlink\<close> does; when they do
  not, the call raises. The two fail independently of each other: a directory that accepts no
  change may hold files that can be written. \<open>ttl\<close> is the \<open>timedelta\<close>, in microseconds.
\<close>

record cache_manager =
  files :: "(pystr, cache_file) fmap"
  writable :: bool
  removable :: bool
  ttl :: int

definition CacheManager_init ::
  "(pystr, cache_file) fmap \<Rightarrow> bool \<Rightarrow> bool \<Rightarrow> int \<Rightarrow> cache_manager" where
  "CacheManager_init dir w r ttl_hours =
     \<lparr>files = dir, writable = w, removable = r, ttl = ttl_hours * 3600000000\<rparr>"

text \<open>
  \<open>_get_cache_key\<close> is \<open>hashlib.md5(url.encode()).hexdigest()\<close>; the digest is a
  parameter \<open>md5\<close> of every operation.
\<close>

definition unlink :: "pystr \<Rightarrow> cache_manager \<Rightarrow> cache_manager option" where
  "unlink key cm =
     (if removable cm then Some (cm\<lparr>files := fmdrop key (files cm)\<rparr>) else None)"

definition expire :: "int \<Rightarrow> pystr \<Rightarrow> cache_manager \<Rightarrow> pystr option \<times> cache_manager" where
  "expire now key cm =
     (case unlink key cm of
        Some cm' \<Rightarrow> (None, cm')
      | None \<Rightarrow> (None, cm))"

definition CacheManager_get ::
  "(pystr \<Rightarrow> pystr) \<Rightarrow> int \<Rightarrow> cache_manager \<Rightarrow> pystr \<Rightarrow> pystr option \<times> cache_manager" where
  "CacheManager_get md5 now cm url =
     (let cache_key = md5 url in
      case fmlookup (files cm) cache_key of
        None \<Rightarrow> (None, cm)
      | Some Malformed \<Rightarrow> (None, cm)
      | Some (NoContent cached_time) \<Rightarrow>
          (if now - cached_time > ttl cm then expire now cache_key cm else (None, cm))
      | Some (Entry u content cached_time) \<Rightarrow>
          (if now - cached_time > ttl cm then expire now cache_key cm
           else (Some content, cm)))"

definition CacheManager_set ::
  "(pystr \<Rightarrow> pystr) \<Rightarrow> int \<Rightarrow> cache_manager \<Rightarrow> pystr \<Rightarrow> pystr \<Rightarrow> bool \<times> cache_manager" where
  "CacheManager_set md5 now cm url content =
     (let cache_key = md5 url in
      if writable cm
      then (True, cm\<lparr>files := fmupd cache_key (Entry url content now) (files cm)\<rparr>)
      else (False, cm))"




section \<open>scraper.py: text extraction\<close>

text \<open>
  The whitespace of \<open>str.split()\<close> and \<open>str.strip()\<close>: the code points for which
  \<open>str.isspace\<close> holds.
\<close>

definition py_isspace :: "nat \<Rightarrow> bool" where
  "py_isspace c \<longleftrightarrow>
     (9 \<le> c \<and> c \<le> 13) \<or> (28 \<le> c \<and> c \<le> 32) \<or> c = 133 \<or> c = 160 \<or> c = 5760 \<or>
     (8192 \<le> c \<and> c \<le> 8202) \<or> c = 8232 \<or> c = 8233 \<or> c = 8239 \<or> c = 8287 \<or> c = 12288"

definition py_strip :: "pystr \<Rightarrow> pystr" where
  "py_strip s = rev (dropWhile py_isspace (rev (dropWhile py_isspace s)))"

text \<open>\<open>s.split()\<close>: the maximal runs of non-whitespace, in order.\<close>

fun split_from :: "pystr \<Rightarrow> pystr \<Rightarrow> pystr list" where
  "split_from w [] = (if w = [] then [] else [w])"
| "split_from w (c # cs) =
     (if py_isspace c then (if w = [] then split_from [] cs else w # split_from [] cs)
      else split_from (w @ [c]) cs)"

definition py_split :: "pystr \<Rightarrow> pystr list" where
  "py_split s = split_from [] s"

text \<open>\<open>sep.join(xs)\<close>\<close>

fun py_join :: "pystr \<Rightarrow> pystr list \<Rightarrow> pystr" where
  "py_join sep [] = []"
| "py_join sep [x] = x"
| "py_join sep (x # y # ys) = x @ sep @ py_join sep (y # ys)"

text \<open>
  The tree that \<open>BeautifulSoup(html, 'lxml')\<close> builds. \<open>NavigableString\<close> is a string of
  exactly that class, the only one \<open>get_text\<close> returns; \<open>OtherString\<close> is a string of one
  of its subclasses (comment, doctype, declaration, processing instruction). The parser
  itself is a parameter (\<open>BeautifulSoup\<close> below); a soup is the list of the top-level nodes.
\<close>

datatype node =
    NavigableString pystr
  | OtherString pystr
  | Tag pystr "node list"

text \<open>
  \<open>for tag in soup([...]): tag.decompose()\<close>: every element with one of the names leaves
  the tree, with all it contains.
\<close>

fun decompose :: "pystr list \<Rightarrow> node list \<Rightarrow> node list" where
  "decompose names [] = []"
| "decompose names (Tag name children # rest) =
     (if name \<in> set names then decompose names rest
      else Tag name (decompose names children) # decompose names rest)"
| "decompose names (other # rest) = other # decompose names rest"

definition removed_tags :: "pystr list" where
  "removed_tags = [str ''script'', str ''style'', str ''nav'', str ''footer'', str ''header'']"

text \<open>The strings \<open>get_text\<close> walks through, in document order.\<close>

fun all_strings :: "node list \<Rightarrow> pystr list" where
  "all_strings [] = []"
| "all_strings (NavigableString s # rest) = s # all_strings rest"
| "all_strings (OtherString s # rest) = all_strings rest"
| "all_strings (Tag name children # rest) = all_strings children @ all_strings rest"

text \<open>\<open>soup.get_text(strip=True, separator=' ')\<close>: each string stripped, the empty ones dropped.\<close>

definition get_text :: "node list \<Rightarrow> pystr" where
  "get_text soup = py_join [32] (filter (\<lambda>s. s \<noteq> []) (map py_strip (all_strings soup)))"

text \<open>\<open>soup.title\<close>: the contents of the first \<open>title\<close> element in document order.\<close>

fun find_title :: "node list \<Rightarrow> node list option" where
  "find_title [] = None"
| "find_title (Tag name children # rest) =
     (if name = str ''title'' then Some children
      else (case find_title children of
              Some t \<Rightarrow> Some t
            | None \<Rightarrow> find_title rest))"
| "find_title (other # rest) = find_title rest"

text \<open>\<open>tag.string\<close>: the single string under the tag; \<open>None\<close> when there is not exactly one child.\<close>

fun tag_string :: "node list \<Rightarrow> pystr option" where
  "tag_string [NavigableString s] = Some s"
| "tag_string [OtherString s] = Some s"
| "tag_string [Tag name children] = tag_string children"
| "tag_string contents = None"

text \<open>\<open>soup.title.string if soup.title else fallback\<close>\<close>

definition title_or :: "node list \<Rightarrow> pystr \<Rightarrow> pystr option" where
  "title_or soup fallback =
     (case find_title soup of
        Some contents \<Rightarrow> tag_string contents
      | None \<Rightarrow> Some fallback)"

section \<open>scraper.py: fetching\<close>

text \<open>
  What the scraper takes from outside: the digest, the clock, the network and the parser.
  The clock and the network are read at a tick, a counter the run advances, so that they
  may answer differently each time. \<open>session_get t url\<close> is \<open>response.text\<close>, or \<open>None\<close>
  when \<open>session.get\<close> or \<open>raise_for_status\<close> raises a \<open>RequestException\<close> (connection
  error, timeout, error status); \<open>BeautifulSoup html\<close> is \<open>None\<close> when the parser raises.
\<close>

record env =
  md5_hexdigest :: "pystr \<Rightarrow> pystr"
  datetime_now :: "nat \<Rightarrow> int"
  session_get :: "nat \<Rightarrow> pystr \<Rightarrow> pystr option"
  BeautifulSoup :: "pystr \<Rightarrow> node list option"

record world =
  cache :: cache_manager
  tick :: nat

text \<open>
  \<open>_fetch_url\<close>. A call takes three ticks: the clock of \<open>cache_manager.get\<close>, the request,
  the clock of \<open>cache_manager.set\<close>. The result of \<open>set\<close> is not looked at.
\<close>

definition DocScraper_fetch_url :: "env \<Rightarrow> world \<Rightarrow> pystr \<Rightarrow> bool \<Rightarrow> pystr option \<times> world" where
  "DocScraper_fetch_url e w u use_cache =
     (let t = tick w;
          (cached_content, cm1) =
            (if use_cache then CacheManager_get (md5_hexdigest e) (datetime_now e t) (cache w) u
             else (None, cache w))
      in if use_cache \<and> truthy cached_content
         then (cached_content, \<lparr>cache = cm1, tick = t + 3\<rparr>)
         else (case session_get e (t + 1) u of
                 None \<Rightarrow> (None, \<lparr>cache = cm1, tick = t + 3\<rparr>)
               | Some text \<Rightarrow>
                   (Some text,
                    \<lparr>cache = (if use_cache
                              then snd (CacheManager_set (md5_hexdigest e) (datetime_now e (t + 2)) cm1 u text)
                              else cm1),
                     tick = t + 3\<rparr>)))"

text \<open>\<open>_extract_text_from_html\<close>: an exception of the parser gives the empty string.\<close>

definition DocScraper_extract_text_from_html :: "env \<Rightarrow> pystr \<Rightarrow> int \<Rightarrow> pystr" where
  "DocScraper_extract_text_from_html e html max_chars =
     (case BeautifulSoup e html of
        None \<Rightarrow> []
      | Some soup \<Rightarrow>
          slice_to max_chars (py_join [32] (py_split (get_text (decompose removed_tags soup)))))"

section \<open>scraper.py: the sources\<close>

text \<open>The dictionary a scrape returns; \<open>title\<close> is \<open>None\<close> when \<open>soup.title.string\<close> is.\<close>

record scraped =
  url :: pystr
  title :: "pystr option"
  content :: pystr

text \<open>
  The class attributes of \<open>DocScraper\<close>. The methods read them through \<open>self\<close>, so that a
  subclass or an instance may hold other addresses than the class does.
\<close>

record doc_scraper =
  DART_ARCHIVE_URL :: pystr
  FLUTTER_RELEASES_URL :: pystr
  EDUCATIONAL_URLS :: "pystr list"

definition DocScraper :: doc_scraper where
  "DocScraper =
     \<lparr>DART_ARCHIVE_URL = str ''https://dart.dev/get-dart/archive'',
      FLUTTER_RELEASES_URL = str ''https://docs.flutter.dev/release/release-notes'',
      EDUCATIONAL_URLS =
        [str ''https://www.educative.io/courses/learn-dart-first-step-to-flutter/an-introduction-to-control-structures'',
         str ''https://pub.dev/'',
         str ''https://dart.dev/tutorials'',
         str ''https://dart.dev/language'',
         str ''https://code.makery.ch/library/topic/dart/'',
         str ''https://dart.dev/docs'',
         str ''https://dart.dev/guides'',
         str ''https://dart.dev/guides/language/language-tour'',
         str ''https://docs.flutter.dev/get-started/install'',
         str ''https://docs.flutter.dev/development/ui/widgets-intro'',
         str ''https://docs.flutter.dev/cookbook'']\<rparr>"

text \<open>
  The body the three scrapers share once the page is there: parse it (an exception of the
  parser leaves no result), take the title or the fallback, extract the text.
\<close>

definition parse_page :: "env \<Rightarrow> pystr \<Rightarrow> pystr \<Rightarrow> pystr \<Rightarrow> int \<Rightarrow> scraped option" where
  "parse_page e u html fallback max_chars =
     (case BeautifulSoup e html of
        None \<Rightarrow> None
      | Some soup \<Rightarrow>
          Some \<lparr>url = u, title = title_or soup fallback,
                content = DocScraper_extract_text_from_html e html max_chars\<rparr>)"

definition DocScraper_scrape_dart_archive :: "env \<Rightarrow> doc_scraper \<Rightarrow> world \<Rightarrow> scraped option \<times> world" where
  "DocScraper_scrape_dart_archive e sc w =
     (let (html, w1) = DocScraper_fetch_url e w (DART_ARCHIVE_URL sc) True
      in case html of
           None \<Rightarrow> (None, w1)
         | Some h \<Rightarrow>
             (if h = [] then (None, w1)
              else (parse_page e (DART_ARCHIVE_URL sc) h (str ''Dart SDK Archive'') 3000, w1)))"

definition DocScraper_scrape_flutter_releases :: "env \<Rightarrow> doc_scraper \<Rightarrow> world \<Rightarrow> scraped option \<times> world" where
  "DocScraper_scrape_flutter_releases e sc w =
     (let (html, w1) = DocScraper_fetch_url e w (FLUTTER_RELEASES_URL sc) True
      in case html of
           None \<Rightarrow> (None, w1)
         | Some h \<Rightarrow>
             (if h = [] then (None, w1)
              else (parse_page e (FLUTTER_RELEASES_URL sc) h (str ''Flutter Release Notes'') 3000, w1)))"

text \<open>
  The loop of \<open>scrape_educational_resources\<close> over the addresses still to visit. The
  \<open>print\<close> after \<open>results.append\<close> raises when the title is \<open>None\<close>; the \<open>except\<close> around it
  catches that, and the result is in the list by then.
\<close>

fun scrape_loop :: "env \<Rightarrow> world \<Rightarrow> pystr list \<Rightarrow> scraped list \<times> world" where
  "scrape_loop e w [] = ([], w)"
| "scrape_loop e w (u # us) =
     (let (html, w1) = DocScraper_fetch_url e w u True
      in case html of
           None \<Rightarrow> scrape_loop e w1 us
         | Some h \<Rightarrow>
             (if h = [] then scrape_loop e w1 us
              else (case parse_page e u h u 2000 of
                      None \<Rightarrow> scrape_loop e w1 us
                    | Some result \<Rightarrow>
                        (let (results, w2) = scrape_loop e w1 us in (result # results, w2)))))"

definition DocScraper_scrape_educational_resources :: "env \<Rightarrow> doc_scraper \<Rightarrow> world \<Rightarrow> scraped list \<times> world" where
  "DocScraper_scrape_educational_resources e sc w = scrape_loop e w (EDUCATIONAL_URLS sc)"

record documentation =
  dart_archive :: "scraped option"
  flutter_releases :: "scraped option"
  educational_resources :: "scraped list"

definition DocScraper_get_all_documentation :: "env \<Rightarrow> doc_scraper \<Rightarrow> world \<Rightarrow> documentation \<times> world" where
  "DocScraper_get_all_documentation e sc w =
     (let (d, w1) = DocScraper_scrape_dart_archive e sc w;
          (f, w2) = DocScraper_scrape_flutter_releases e sc w1;
          (rs, w3) = DocScraper_scrape_educational_resources e sc w2
      in (\<lparr>dart_archive = d, flutter_releases = f, educational_resources = rs\<rparr>, w3))"

section \<open>scraper.py: the summary\<close>

text \<open>The literal texts of \<open>build_context_summary\<close>, as code points.\<close>

definition summary_header :: pystr where
  "summary_header =
     [35, 32, 1605, 1593, 1604, 1608, 1605, 1575, 1578, 32, 1605, 1606, 32, 1575, 1604, 1605,
      1589, 1575, 1583, 1585, 32, 1575, 1604, 1585, 1587, 1605, 1610, 1577, 32, 1608, 1575,
      1604, 1578, 1593, 1604, 1610, 1605, 1610, 1577, 10]"

definition dart_heading :: pystr where
  "dart_heading = [35, 35, 32, 1571, 1585, 1588, 1610, 1601, 32, 68, 97, 114, 116, 32, 83, 68, 75]"

definition flutter_heading :: pystr where
  "flutter_heading =
     [35, 35, 32, 1605, 1604, 1575, 1581, 1592, 1575, 1578, 32, 1573, 1589, 1583, 1575, 1585,
      1575, 1578, 32, 70, 108, 117, 116, 116, 101, 114]"

definition resources_heading :: pystr where
  "resources_heading =
     [10, 35, 35, 32, 1575, 1604, 1605, 1608, 1575, 1585, 1583, 32, 1575, 1604, 1578, 1593,
      1604, 1610, 1605, 1610, 1577, 10]"

definition source_label :: pystr where
  "source_label = [1575, 1604, 1605, 1589, 1583, 1585, 58, 32]"

definition content_label :: pystr where
  "content_label = [1575, 1604, 1605, 1581, 1578, 1608, 1609, 58, 32]"

definition resource_label :: pystr where
  "resource_label = [35, 35, 35, 32, 1605, 1589, 1583, 1585, 32]"

definition resource_content_label :: pystr where
  "resource_content_label = [1605, 1581, 1578, 1608, 1609, 58, 32]"

text \<open>\<open>str(i)\<close> for a count, as the f-string formats it.\<close>

fun str_nat :: "nat \<Rightarrow> pystr" where
  "str_nat n = (if n < 10 then [48 + n] else str_nat (n div 10) @ [48 + n mod 10])"

text \<open>The section of a primary source.\<close>

definition primary_section :: "pystr \<Rightarrow> scraped \<Rightarrow> pystr" where
  "primary_section heading d =
     [10] @ heading @ [10] @ source_label @ url d @ [10] @
     content_label @ slice_to 800 (content d) @ [10]"

text \<open>The section of a supplementary source whose title is the string \<open>t\<close>.\<close>

definition resource_text :: "nat \<Rightarrow> scraped \<Rightarrow> pystr \<Rightarrow> pystr" where
  "resource_text i resource t =
     [10] @ resource_label @ str_nat i @ [58, 32] @ slice_to 60 t @ [10] @
     str ''URL: '' @ url resource @ [10] @
     resource_content_label @ slice_to 600 (content resource) @ [10]"

text \<open>Slicing a title that is \<open>None\<close> raises.\<close>

datatype error = TypeError

definition resource_section :: "nat \<Rightarrow> scraped \<Rightarrow> error + pystr" where
  "resource_section i resource =
     (case title resource of
        None \<Rightarrow> Inl TypeError
      | Some t \<Rightarrow> Inr (resource_text i resource t))"

text \<open>\<open>for i, resource in enumerate(..., 1)\<close>: the first exception ends the loop.\<close>

fun resource_sections :: "nat \<Rightarrow> scraped list \<Rightarrow> error + pystr list" where
  "resource_sections i [] = Inr []"
| "resource_sections i (resource # rest) =
     (case resource_section i resource of
        Inl err \<Rightarrow> Inl err
      | Inr part \<Rightarrow>
          (case resource_sections (Suc i) rest of
             Inl err \<Rightarrow> Inl err
           | Inr parts \<Rightarrow> Inr (part # parts)))"

text \<open>\<open>context_parts\<close> after the two primary sources.\<close>

definition primary_parts :: "documentation \<Rightarrow> pystr list" where
  "primary_parts doc =
     (let parts1 = [summary_header];
          parts2 = (case dart_archive doc of
                      None \<Rightarrow> parts1
                    | Some d \<Rightarrow> parts1 @ [primary_section dart_heading d])
      in case flutter_releases doc of
           None \<Rightarrow> parts2
         | Some f \<Rightarrow> parts2 @ [primary_section flutter_heading f])"

text \<open>\<open>context_parts\<close> when \<open>build_context_summary\<close> joins it.\<close>

definition context_parts :: "documentation \<Rightarrow> error + pystr list" where
  "context_parts doc =
     (if educational_resources doc = [] then Inr (primary_parts doc)
      else (case resource_sections 1 (slice_to 8 (educational_resources doc)) of
              Inl err \<Rightarrow> Inl err
            | Inr parts \<Rightarrow> Inr (primary_parts doc @ [resources_heading] @ parts)))"

definition DocScraper_build_context_summary :: "documentation \<Rightarrow> error + pystr" where
  "DocScraper_build_context_summary doc =
     (case context_parts doc of
        Inl err \<Rightarrow> Inl err
      | Inr parts \<Rightarrow> Inr (py_join [10] parts))"

section \<open>Runs on a cold cache\<close>

text \<open>
  What a scraper makes of one address when the network answers \<open>net\<close> for it: nothing
  when the request fails, when the page is empty or when the parser raises.
\<close>

definition scrape_page :: "env \<Rightarrow> (pystr \<Rightarrow> pystr option) \<Rightarrow> pystr \<Rightarrow> pystr \<Rightarrow> int \<Rightarrow> scraped option" where
  "scrape_page e net u fallback max_chars =
     (case net u of
        None \<Rightarrow> None
      | Some h \<Rightarrow> if h = [] then None else parse_page e u h fallback max_chars)"

text \<open>
  The cache holds nothing under the keys of the addresses, and the keys differ from one
  another.
\<close>

definition cold :: "env \<Rightarrow> world \<Rightarrow> pystr list \<Rightarrow> bool" where
  "cold e w us \<longleftrightarrow>
     distinct (map (md5_hexdigest e) us) \<and>
     (\<forall>u \<in> set us. md5_hexdigest e u |\<notin>| fmdom (files (cache w)))"

section \<open>Example runs\<close>

text \<open>
  In the examples the digest is replaced by the address itself, which keeps distinct
  addresses apart as the digest does in practice.
\<close>

definition address_key :: "pystr \<Rightarrow> pystr" where
  "address_key u = u"

text \<open>
  An environment for the example runs, from what the network serves at each address and
  what the parser builds from each page; the clock counts the ticks.
\<close>

definition example_env :: "(pystr \<Rightarrow> pystr option) \<Rightarrow> (pystr \<Rightarrow> node list option) \<Rightarrow> env" where
  "example_env net parser =
     \<lparr>md5_hexdigest = address_key, datetime_now = (\<lambda>t. int t),
      session_get = (\<lambda>t. net), BeautifulSoup = parser\<rparr>"

text \<open>An empty cache that accepts writes and removals, with the default time to live of 24 hours.\<close>

definition example_world :: world where
  "example_world = \<lparr>cache = CacheManager_init fmempty True True 24, tick = 0\<rparr>"

text \<open>A page with one paragraph and no title, and the tree of it.\<close>

definition plain_page :: pystr where
  "plain_page = str ''<p>x</p>''"

definition plain_tree :: "node list" where
  "plain_tree = [Tag (str ''html'') [Tag (str ''body'') [Tag (str ''p'') [NavigableString (str ''x'')]]]]"

text \<open>
  The network serves the plain page at the listed addresses and fails elsewhere; the parser
  raises on anything but the plain page.
\<close>

definition plain_net :: "pystr list \<Rightarrow> pystr \<Rightarrow> pystr option" where
  "plain_net us u = (if u \<in> set us then Some plain_page else None)"

definition plain_parser :: "pystr \<Rightarrow> node list option" where
  "plain_parser h = (if h = plain_page then Some plain_tree else None)"

definition serving :: "pystr list \<Rightarrow> env" where
  "serving us = example_env (plain_net us) plain_parser"

text \<open>Two primary sources and supplementary sources \<open>u0\<close>, \<open>u1\<close> and so on.\<close>

definition sources :: "nat \<Rightarrow> doc_scraper" where
  "sources n =
     \<lparr>DART_ARCHIVE_URL = str ''d'', FLUTTER_RELEASES_URL = str ''f'',
      EDUCATIONAL_URLS = map (\<lambda>k. [117, 48 + k]) [0 ..< n]\<rparr>"

section \<open>What the extraction is to give\<close>

text \<open>
  The strings of the page that lie outside every element with one of the names, in
  document order: what is left when those elements are discarded.
\<close>

fun outside_strings :: "pystr list \<Rightarrow> node list \<Rightarrow> pystr list" where
  "outside_strings names [] = []"
| "outside_strings names (NavigableString s # rest) = s # outside_strings names rest"
| "outside_strings names (OtherString s # rest) = outside_strings names rest"
| "outside_strings names (Tag name children # rest) =
     (if name \<in> set names then [] else outside_strings names children)
     @ outside_strings names rest"

text \<open>
  A text in which every whitespace character is a single space that follows a character
  that is not whitespace; \<open>after_word\<close> says whether the text continues such a character.
\<close>

fun collapsed :: "bool \<Rightarrow> pystr \<Rightarrow> bool" where
  "collapsed after_word [] = True"
| "collapsed after_word (c # cs) =
     (if py_isspace c then c = 32 \<and> after_word \<and> collapsed False cs
      else collapsed True cs)"

text \<open>A word: a non-empty text without whitespace.\<close>

definition word :: "pystr \<Rightarrow> bool" where
  "word w \<longleftrightarrow> w \<noteq> [] \<and> (\<forall>c \<in> set w. \<not> py_isspace c)"

text \<open>
  The markup \<open><script>dangerous()</script><p>Hello   world</p>\<close> and the tree the lxml
  parser builds from it: the script goes under \<open>head\<close>, the paragraph under \<open>body\<close>.
\<close>

definition hello_markup :: pystr where
  "hello_markup = str ''<script>dangerous()</script><p>Hello   world</p>''"

definition hello_tree :: "node list" where
  "hello_tree =
     [Tag (str ''html'')
        [Tag (str ''head'') [Tag (str ''script'') [OtherString (str ''dangerous()'')]],
         Tag (str ''body'') [Tag (str ''p'') [NavigableString (str ''Hello   world'')]]]]"

definition hello_parser :: "pystr \<Rightarrow> node list option" where
  "hello_parser h = (if h = hello_markup then Some hello_tree else None)"

section \<open>The course of a run, and more example runs\<close>

text \<open>The addresses of a scraper, in the order of a run.\<close>

definition addresses :: "doc_scraper \<Rightarrow> pystr list" where
  "addresses sc = DART_ARCHIVE_URL sc # FLUTTER_RELEASES_URL sc # EDUCATIONAL_URLS sc"

text \<open>The documentation an example run returns.\<close>

definition example_run :: "env \<Rightarrow> doc_scraper \<Rightarrow> documentation" where
  "example_run e sc = fst (DocScraper_get_all_documentation e sc example_world)"

text \<open>What scraping the plain page at an address gives.\<close>

definition plain_result :: "pystr \<Rightarrow> pystr \<Rightarrow> scraped" where
  "plain_result u fallback = \<lparr>url = u, title = Some fallback, content = str ''x''\<rparr>"

text \<open>
  The course of the loop over the supplementary sources: each address with what
  \<open>_fetch_url\<close> returned for it, the world passing from one fetch to the next.
\<close>

fun fetched :: "env \<Rightarrow> world \<Rightarrow> pystr list \<Rightarrow> (pystr \<times> pystr option) list" where
  "fetched e w [] = []"
| "fetched e w (u # us) =
     (u, fst (DocScraper_fetch_url e w u True))
     # fetched e (snd (DocScraper_fetch_url e w u True)) us"



text \<open>
  A page whose only text is a script, and the tree of it; the network serves it at the
  first primary address and at the supplementary address \<open>u0\<close>.
\<close>

definition script_page :: pystr where
  "script_page = str ''<script>x()</script>''"

definition script_tree :: "node list" where
  "script_tree = [Tag (str ''html'') [Tag (str ''head'') [Tag (str ''script'') [OtherString (str ''x()'')]]]]"

definition script_net :: "pystr \<Rightarrow> pystr option" where
  "script_net u = (if u = str ''d'' \<or> u = [117, 48] then Some script_page else None)"

definition script_parser :: "pystr \<Rightarrow> node list option" where
  "script_parser h = (if h = script_page then Some script_tree else None)"

definition script_env :: env where
  "script_env = example_env script_net script_parser"

text \<open>The results of scraping the script page: no text.\<close>

definition script_result :: "pystr \<Rightarrow> pystr \<Rightarrow> scraped" where
  "script_result u fallback = \<lparr>url = u, title = Some fallback, content = []\<rparr>"

text \<open>
  What the cuts of \<open>build_context_summary\<close> leave at most: the literal texts and the
  addresses, 800 characters of content for each primary source, and 60 characters of title
  and 600 of content for each of eight supplementary sources at most.
\<close>

definition summary_budget :: "documentation \<Rightarrow> nat" where
  "summary_budget doc =
     40
     + (case dart_archive doc of None \<Rightarrow> 0 | Some d \<Rightarrow> 39 + length (url d) + 800)
     + (case flutter_releases doc of None \<Rightarrow> 0 | Some f \<Rightarrow> 48 + length (url f) + 800)
     + (if educational_resources doc = [] then 0
        else 23 + (\<Sum>r \<leftarrow> take 8 (educational_resources doc). 29 + length (url r) + 60 + 600))"

text \<open>
  A page with a title of 100 characters and a paragraph of 4000, neither with whitespace
  in it, and the tree of it; the network serves it at the listed addresses.
\<close>

definition long_title :: pystr where
  "long_title = replicate 100 116"

definition long_text :: pystr where
  "long_text = replicate 4000 120"

definition long_page :: pystr where
  "long_page = str ''<title>'' @ long_title @ str ''</title><p>'' @ long_text @ str ''</p>''"

definition long_tree :: "node list" where
  "long_tree =
     [Tag (str ''html'')
        [Tag (str ''head'') [Tag (str ''title'') [NavigableString long_title]],
         Tag (str ''body'') [Tag (str ''p'') [NavigableString long_text]]]]"

definition long_net :: "pystr list \<Rightarrow> pystr \<Rightarrow> pystr option" where
  "long_net us u = (if u \<in> set us then Some long_page else None)"

definition long_parser :: "pystr \<Rightarrow> node list option" where
  "long_parser h = (if h = long_page then Some long_tree else None)"

definition long_env :: "pystr list \<Rightarrow> env" where
  "long_env us = example_env (long_net us) long_parser"

text \<open>
  A page whose title element is empty, and the tree of it: \<open>soup.title\<close> is there and
  \<open>soup.title.string\<close> is \<open>None\<close>. The network serves it at the supplementary address \<open>u0\<close>
  and the plain page at the listed addresses.
\<close>

definition untitled_page :: pystr where
  "untitled_page = str ''<title></title><p>x</p>''"

definition untitled_tree :: "node list" where
  "untitled_tree =
     [Tag (str ''html'')
        [Tag (str ''head'') [Tag (str ''title'') []],
         Tag (str ''body'') [Tag (str ''p'') [NavigableString (str ''x'')]]]]"

definition untitled_net :: "pystr list \<Rightarrow> pystr \<Rightarrow> pystr option" where
  "untitled_net us u = (if u = [117, 48] then Some untitled_page else plain_net us u)"

definition untitled_parser :: "pystr \<Rightarrow> node list option" where
  "untitled_parser h = (if h = untitled_page then Some untitled_tree else plain_parser h)"

definition untitled_first :: "pystr list \<Rightarrow> env" where
  "untitled_first us = example_env (untitled_net us) untitled_parser"

text \<open>What scraping the page with the empty title gives.\<close>

definition untitled_result :: "pystr \<Rightarrow> scraped" where
  "untitled_result u = \<lparr>url = u, title = None, content = str ''x''\<rparr>"

text \<open>
  A network that serves one page at every address; the script page served everywhere, and
  the plain page served everywhere to a parser that raises on it.
\<close>

definition always :: "pystr \<Rightarrow> pystr \<Rightarrow> pystr option" where
  "always page u = Some page"

definition script_everywhere :: env where
  "script_everywhere = example_env (always script_page) script_parser"

definition unparsed_env :: env where
  "unparsed_env = example_env (always plain_page) script_parser"


section \<open>Properties of the cache\<close>









section \<open>Properties of fetching\<close>

text \<open>
  C9. When the cache holds an entry for \<open>a\<close> that has not expired and whose content is the
  empty string, \<open>get\<close> returns that empty string, \<open>_fetch_url\<close> takes it for a miss and
  returns what the network request for \<open>a\<close> gives; when the request succeeds on a writable
  cache, the entry of \<open>a\<close> is overwritten with the fresh text.
\<close>

theorem empty_cached_payload_is_refetched:
  assumes "fmlookup (files (cache w)) (md5_hexdigest e a) = Some (Entry u [] ts)"
    and "datetime_now e (tick w) - ts \<le> ttl (cache w)"
  shows "CacheManager_get (md5_hexdigest e) (datetime_now e (tick w)) (cache w) a = (Some [], cache w)
    \<and> fst (DocScraper_fetch_url e w a True) = session_get e (tick w + 1) a
    \<and> (\<forall>text. session_get e (tick w + 1) a = Some text \<and> writable (cache w) \<longrightarrow>
          fmlookup (files (cache (snd (DocScraper_fetch_url e w a True)))) (md5_hexdigest e a)
            = Some (Entry a text (datetime_now e (tick w + 2))))"
  using assms
  by (auto simp: DocScraper_fetch_url_def CacheManager_get_def CacheManager_set_def Let_def
      split: option.splits)

text \<open>An empty payload cached at time 0, refetched while still within its time to live.\<close>

theorem empty_cached_payload_is_refetched_witness:
  "fmlookup (files (cache \<lparr>cache = \<lparr>files = fmupd [104] (Entry [104] [] 0) fmempty, writable = True, removable = True, ttl = 10\<rparr>, tick = 0\<rparr>))
      (md5_hexdigest \<lparr>md5_hexdigest = \<lambda>u. u, datetime_now = \<lambda>t. int t, session_get = \<lambda>t u. Some [60, 112, 62],
         BeautifulSoup = \<lambda>h. None\<rparr> [104]) = Some (Entry [104] [] 0)
   \<and> fst (DocScraper_fetch_url
        \<lparr>md5_hexdigest = \<lambda>u. u, datetime_now = \<lambda>t. int t, session_get = \<lambda>t u. Some [60, 112, 62],
         BeautifulSoup = \<lambda>h. None\<rparr>
        \<lparr>cache = \<lparr>files = fmupd [104] (Entry [104] [] 0) fmempty, writable = True, removable = True, ttl = 10\<rparr>, tick = 0\<rparr>
        [104] True) = Some [60, 112, 62]
   \<and> cache (snd (DocScraper_fetch_url
        \<lparr>md5_hexdigest = \<lambda>u. u, datetime_now = \<lambda>t. int t, session_get = \<lambda>t u. Some [60, 112, 62],
         BeautifulSoup = \<lambda>h. None\<rparr>
        \<lparr>cache = \<lparr>files = fmupd [104] (Entry [104] [] 0) fmempty, writable = True, removable = True, ttl = 10\<rparr>, tick = 0\<rparr>
        [104] True))
     = \<lparr>files = fmupd [104] (Entry [104] [60, 112, 62] 2) fmempty, writable = True, removable = True, ttl = 10\<rparr>"
proof -
  let ?e = "\<lparr>md5_hexdigest = \<lambda>u. u, datetime_now = \<lambda>t. int t, session_get = \<lambda>t u. Some [60, 112, 62],
         BeautifulSoup = \<lambda>h. None\<rparr>"
  let ?w = "\<lparr>cache = \<lparr>files = fmupd [104] (Entry [104] [] 0) fmempty, writable = True, removable = True, ttl = 10\<rparr>, tick = 0\<rparr>"
  have f: "fmlookup (files (cache ?w)) (md5_hexdigest ?e [104]) = Some (Entry [104] [] 0)"
    by simp
  have t: "datetime_now ?e (tick ?w) - 0 \<le> ttl (cache ?w)"
    by simp
  have c: "cache (snd (DocScraper_fetch_url ?e ?w [104] True))
     = \<lparr>files = fmupd [104] (Entry [104] [60, 112, 62] 2) fmempty, writable = True, removable = True, ttl = 10\<rparr>"
    by (simp add: DocScraper_fetch_url_def CacheManager_get_def CacheManager_set_def Let_def)
  from empty_cached_payload_is_refetched [OF f t] f c show ?thesis
    by simp
qed

section \<open>Runs on a cold cache: what they return\<close>

lemma fetch_url_absent:
  assumes "md5_hexdigest e u |\<notin>| fmdom (files (cache w))"
  shows "fst (DocScraper_fetch_url e w u True) = session_get e (tick w + 1) u"
proof -
  from assms have "fmlookup (files (cache w)) (md5_hexdigest e u) = None"
    by (simp add: fmdom_notD)
  then show ?thesis
    by (simp add: DocScraper_fetch_url_def CacheManager_get_def Let_def split: option.splits)
qed

lemma fetch_url_keys:
  "fmdom (files (cache (snd (DocScraper_fetch_url e w u True))))
     |\<subseteq>| finsert (md5_hexdigest e u) (fmdom (files (cache w)))"
  by (auto simp: DocScraper_fetch_url_def CacheManager_get_def CacheManager_set_def Let_def
      expire_def unlink_def split: option.splits cache_file.splits if_splits)

lemma cold_Cons:
  assumes "cold e w (u # us)"
  shows "md5_hexdigest e u |\<notin>| fmdom (files (cache w))"
    and "cold e (snd (DocScraper_fetch_url e w u True)) us"
proof -
  from assms show "md5_hexdigest e u |\<notin>| fmdom (files (cache w))"
    by (simp add: cold_def)
  have "md5_hexdigest e v |\<notin>| fmdom (files (cache (snd (DocScraper_fetch_url e w u True))))"
    if "v \<in> set us" for v
  proof
    assume "md5_hexdigest e v |\<in>| fmdom (files (cache (snd (DocScraper_fetch_url e w u True))))"
    with fetch_url_keys [of e w u]
    have "md5_hexdigest e v |\<in>| finsert (md5_hexdigest e u) (fmdom (files (cache w)))"
      by blast
    moreover from that have "md5_hexdigest e v \<in> md5_hexdigest e ` set us"
      by (rule imageI)
    with assms have "md5_hexdigest e v \<noteq> md5_hexdigest e u"
      by (auto simp: cold_def)
    moreover from assms that have "md5_hexdigest e v |\<notin>| fmdom (files (cache w))"
      by (simp add: cold_def)
    ultimately show False
      by simp
  qed
  with assms show "cold e (snd (DocScraper_fetch_url e w u True)) us"
    by (simp add: cold_def)
qed

lemma scrape_loop_cold:
  assumes "cold e w us" and "\<forall>t. session_get e t = net"
  shows "fst (scrape_loop e w us) = List.map_filter (\<lambda>u. scrape_page e net u u 2000) us"
  using assms(1)
proof (induction us arbitrary: w)
  case Nil
  then show ?case by (simp add: List.map_filter_simps)
next
  case (Cons u us)
  obtain html w1 where f: "DocScraper_fetch_url e w u True = (html, w1)"
    by (cases "DocScraper_fetch_url e w u True")
  from cold_Cons [OF Cons.prems] f assms(2) have h: "html = net u" and c: "cold e w1 us"
    using fetch_url_absent [of e u w] by auto
  from Cons.IH [OF c] f h show ?case
    by (auto simp: List.map_filter_simps scrape_page_def split: option.splits prod.splits)
qed

lemma scrape_loop_world:
  "snd (scrape_loop e w (u # us)) = snd (scrape_loop e (snd (DocScraper_fetch_url e w u True)) us)"
  by (auto split: prod.splits option.splits)

lemma scrape_dart_archive_world:
  "snd (DocScraper_scrape_dart_archive e sc w) = snd (DocScraper_fetch_url e w (DART_ARCHIVE_URL sc) True)"
  by (auto simp: DocScraper_scrape_dart_archive_def split: prod.splits option.splits)

lemma scrape_flutter_releases_world:
  "snd (DocScraper_scrape_flutter_releases e sc w) = snd (DocScraper_fetch_url e w (FLUTTER_RELEASES_URL sc) True)"
  by (auto simp: DocScraper_scrape_flutter_releases_def split: prod.splits option.splits)

lemma scrape_dart_archive_cold:
  assumes "md5_hexdigest e (DART_ARCHIVE_URL sc) |\<notin>| fmdom (files (cache w))"
    and "\<forall>t. session_get e t = net"
  shows "fst (DocScraper_scrape_dart_archive e sc w)
    = scrape_page e net (DART_ARCHIVE_URL sc) (str ''Dart SDK Archive'') 3000"
  using fetch_url_absent [OF assms(1)] assms(2)
  by (auto simp: DocScraper_scrape_dart_archive_def scrape_page_def split: prod.splits option.splits)

lemma scrape_flutter_releases_cold:
  assumes "md5_hexdigest e (FLUTTER_RELEASES_URL sc) |\<notin>| fmdom (files (cache w))"
    and "\<forall>t. session_get e t = net"
  shows "fst (DocScraper_scrape_flutter_releases e sc w)
    = scrape_page e net (FLUTTER_RELEASES_URL sc) (str ''Flutter Release Notes'') 3000"
  using fetch_url_absent [OF assms(1)] assms(2)
  by (auto simp: DocScraper_scrape_flutter_releases_def scrape_page_def split: prod.splits option.splits)

lemma get_all_documentation_cold:
  assumes "cold e w (DART_ARCHIVE_URL sc # FLUTTER_RELEASES_URL sc # EDUCATIONAL_URLS sc)"
    and "\<forall>t. session_get e t = net"
  shows "fst (DocScraper_get_all_documentation e sc w) =
    \<lparr>dart_archive = scrape_page e net (DART_ARCHIVE_URL sc) (str ''Dart SDK Archive'') 3000,
     flutter_releases = scrape_page e net (FLUTTER_RELEASES_URL sc) (str ''Flutter Release Notes'') 3000,
     educational_resources =
       List.map_filter (\<lambda>u. scrape_page e net u u 2000) (EDUCATIONAL_URLS sc)\<rparr>"
proof -
  let ?w1 = "snd (DocScraper_fetch_url e w (DART_ARCHIVE_URL sc) True)"
  let ?w2 = "snd (DocScraper_fetch_url e ?w1 (FLUTTER_RELEASES_URL sc) True)"
  from cold_Cons [OF assms(1)]
  have d: "md5_hexdigest e (DART_ARCHIVE_URL sc) |\<notin>| fmdom (files (cache w))"
    and c1: "cold e ?w1 (FLUTTER_RELEASES_URL sc # EDUCATIONAL_URLS sc)"
    by simp_all
  from cold_Cons [OF c1]
  have f: "md5_hexdigest e (FLUTTER_RELEASES_URL sc) |\<notin>| fmdom (files (cache ?w1))"
    and c2: "cold e ?w2 (EDUCATIONAL_URLS sc)"
    by simp_all
  have "fst (DocScraper_get_all_documentation e sc w) =
    \<lparr>dart_archive = fst (DocScraper_scrape_dart_archive e sc w),
     flutter_releases = fst (DocScraper_scrape_flutter_releases e sc ?w1),
     educational_resources = fst (scrape_loop e ?w2 (EDUCATIONAL_URLS sc))\<rparr>"
    using scrape_dart_archive_world [of e sc w] scrape_flutter_releases_world [of e sc ?w1]
    by (auto simp: DocScraper_get_all_documentation_def DocScraper_scrape_educational_resources_def
        split: prod.splits)
  with scrape_dart_archive_cold [OF d assms(2)] scrape_flutter_releases_cold [OF f assms(2)]
    scrape_loop_cold [OF c2 assms(2)]
  show ?thesis
    by simp
qed

section \<open>Extraction budgets\<close>

lemma slice_to_nonneg: "0 \<le> n \<Longrightarrow> slice_to n xs = take (nat n) xs"
  by (simp add: slice_to_def)

lemma length_extract_text: "0 \<le> n \<Longrightarrow> length (DocScraper_extract_text_from_html e h n) \<le> nat n"
  by (simp add: DocScraper_extract_text_from_html_def slice_to_nonneg split: option.splits)

lemma parse_page_content:
  "parse_page e u h fb n = Some r \<Longrightarrow> content r = DocScraper_extract_text_from_html e h n"
  by (auto simp: parse_page_def split: option.splits)

lemma scrape_loop_content_budget:
  "r \<in> set (fst (scrape_loop e w us)) \<Longrightarrow> length (content r) \<le> 2000"
proof (induction us arbitrary: w)
  case Nil
  then show ?case by simp
next
  case (Cons u us)
  obtain html w1 where f: "DocScraper_fetch_url e w u True = (html, w1)"
    by (cases "DocScraper_fetch_url e w u True")
  show ?case
  proof (cases "html = None \<or> html = Some [] \<or> parse_page e u (the html) u 2000 = None")
    case True
    with Cons.prems f have "r \<in> set (fst (scrape_loop e w1 us))"
      by (auto split: option.splits if_splits)
    then show ?thesis by (rule Cons.IH)
  next
    case False
    from False obtain h where h1: "html = Some h"
      by (cases html) auto
    from False h1 obtain res where h2: "parse_page e u h u 2000 = Some res"
      by (cases "parse_page e u h u 2000") auto
    from False h1 h2 have h: "html = Some h" "h \<noteq> []" "parse_page e u h u 2000 = Some res"
      by auto
    with Cons.prems f have "r = res \<or> r \<in> set (fst (scrape_loop e w1 us))"
      by (auto split: prod.splits)
    then show ?thesis
    proof
      assume "r = res"
      with h(3) show ?thesis
        using length_extract_text [of 2000 e h] by (simp add: parse_page_content)
    next
      assume "r \<in> set (fst (scrape_loop e w1 us))"
      then show ?thesis by (rule Cons.IH)
    qed
  qed
qed

lemma scrape_dart_archive_budget:
  "fst (DocScraper_scrape_dart_archive e sc w) = Some d \<Longrightarrow> length (content d) \<le> 3000"
  using length_extract_text [of 3000 e]
  by (auto simp: DocScraper_scrape_dart_archive_def parse_page_content
      split: prod.splits option.splits if_splits)

lemma scrape_flutter_releases_budget:
  "fst (DocScraper_scrape_flutter_releases e sc w) = Some d \<Longrightarrow> length (content d) \<le> 3000"
  using length_extract_text [of 3000 e]
  by (auto simp: DocScraper_scrape_flutter_releases_def parse_page_content
      split: prod.splits option.splits if_splits)

section \<open>Example runs on the plain page\<close>

lemma map_address_key: "map address_key vs = vs"
  by (induction vs) (simp_all add: address_key_def)

lemmas example_defs =
  serving_def example_env_def address_key_def example_world_def CacheManager_init_def plain_page_def
  plain_tree_def sources_def str_def




section \<open>Properties of text extraction\<close>

lemma decompose_outside_strings:
  "all_strings (decompose names soup) = outside_strings names soup"
  by (induction names soup rule: decompose.induct) simp_all

lemma split_from_words:
  "\<forall>c \<in> set w. \<not> py_isspace c \<Longrightarrow> \<forall>v \<in> set (split_from w cs). word v"
proof (induction cs arbitrary: w)
  case Nil
  then show ?case by (simp add: word_def)
next
  case (Cons c cs)
  show ?case
  proof (cases "py_isspace c")
    case True
    from Cons.IH [of "[]"] have "\<forall>v \<in> set (split_from [] cs). word v"
      by simp
    with True Cons.prems show ?thesis
      by (simp add: word_def)
  next
    case False
    with Cons.prems have "\<forall>a \<in> set (w @ [c]). \<not> py_isspace a"
      by simp
    from Cons.IH [OF this] False show ?thesis
      by simp
  qed
qed

lemma py_split_words: "\<forall>v \<in> set (py_split s). word v"
  using split_from_words [of "[]" s] by (simp add: py_split_def)

lemma collapsed_word: "word w \<Longrightarrow> collapsed p (w @ r) = collapsed True r"
proof (induction w arbitrary: p)
  case Nil
  then show ?case by (simp add: word_def)
next
  case (Cons c w)
  then show ?case by (cases "w = []") (auto simp: word_def)
qed

lemma collapsed_join: "\<forall>v \<in> set ws. word v \<Longrightarrow> collapsed p (py_join [32] ws)"
proof (induction "[32::nat]" ws arbitrary: p rule: py_join.induct)
  case 1
  then show ?case by simp
next
  case (2 x)
  then show ?case using collapsed_word [of x p "[]"] by simp
next
  case (3 x y ys)
  then show ?case
    using collapsed_word [of x p "[32] @ py_join [32] (y # ys)"]
    by (simp add: py_isspace_def)
qed

lemma collapsed_take: "collapsed p s \<Longrightarrow> collapsed p (take n s)"
proof (induction s arbitrary: p n)
  case Nil
  then show ?case by simp
next
  case (Cons c s)
  then show ?case by (cases n) (auto split: if_splits)
qed

lemma collapsed_slice_to: "collapsed p s \<Longrightarrow> collapsed p (slice_to n s)"
  by (simp add: slice_to_def collapsed_take)

lemma split_from_word:
  "word v \<Longrightarrow> \<forall>c \<in> set w. \<not> py_isspace c \<Longrightarrow> split_from w (v @ r) = split_from (w @ v) r"
proof (induction v arbitrary: w)
  case Nil
  then show ?case by (simp add: word_def)
next
  case (Cons c v)
  show ?case
  proof (cases "v = []")
    case True
    with Cons.prems show ?thesis by (simp add: word_def)
  next
    case False
    with Cons.prems have "word v" and "\<forall>c \<in> set (w @ [c]). \<not> py_isspace c" and "\<not> py_isspace c"
      by (auto simp: word_def)
    with Cons.IH [of "w @ [c]"] show ?thesis by simp
  qed
qed

lemma split_join_words:
  "\<forall>v \<in> set ws. word v \<Longrightarrow> py_split (py_join [32] ws) = ws"
proof (induction "[32::nat]" ws rule: py_join.induct)
  case 1
  then show ?case by (simp add: py_split_def)
next
  case (2 x)
  then show ?case
    using split_from_word [of x "[]" "[]"] by (simp add: py_split_def word_def)
next
  case (3 x y ys)
  then have "word x" by simp
  with split_from_word [of x "[]" "[32] @ py_join [32] (y # ys)"]
  have "py_split (py_join [32] (x # y # ys)) = x # py_split (py_join [32] (y # ys))"
    by (simp add: py_split_def py_isspace_def word_def)
  with 3 show ?case by simp
qed

lemma hello_text:
  "py_join [32] (py_split (get_text (decompose removed_tags
     [Tag (str ''html'')
                [Tag (str ''head'') [Tag (str ''script'') script],
                 Tag (str ''body'') [Tag (str ''p'') [NavigableString (str ''Hello   world'')]]]])))
   = str ''Hello world''"
  by (simp add: get_text_def removed_tags_def str_def py_strip_def py_split_def py_isspace_def)

text \<open>
  C4. Extraction returns the strings of the page that lie outside the \<open>script\<close>, \<open>style\<close>,
  \<open>nav\<close>, \<open>footer\<close> and \<open>header\<close> elements, each stripped, joined and split into words
  again, the words joined by single spaces, cut at the budget. In the result every
  whitespace character is a single space after a word, and splitting and joining keeps
  the words as they are. When the parser builds the html, head and body tree from
  \<open><script>dangerous()</script><p>Hello   world</p>\<close>, the result is \<open>Hello world\<close>.
\<close>

theorem extraction_discards_and_collapses:
  "all_strings (decompose removed_tags soup) = outside_strings removed_tags soup
   \<and> removed_tags = [str ''script'', str ''style'', str ''nav'', str ''footer'', str ''header'']
   \<and> collapsed False (DocScraper_extract_text_from_html e html n)
   \<and> (BeautifulSoup e html = Some soup \<longrightarrow>
        DocScraper_extract_text_from_html e html n =
          slice_to n (py_join [32] (py_split (py_join [32]
            (filter (\<lambda>s. s \<noteq> []) (map py_strip (outside_strings removed_tags soup)))))))
   \<and> py_split (py_join [32] (py_split t)) = py_split t
   \<and> (BeautifulSoup e (str ''<script>dangerous()</script><p>Hello   world</p>'') =
        Some [Tag (str ''html'')
                [Tag (str ''head'') [Tag (str ''script'') script],
                 Tag (str ''body'') [Tag (str ''p'') [NavigableString (str ''Hello   world'')]]]]
      \<longrightarrow> DocScraper_extract_text_from_html e
            (str ''<script>dangerous()</script><p>Hello   world</p>'') 5000 = str ''Hello world'')"
proof (intro conjI impI)
  show "all_strings (decompose removed_tags soup) = outside_strings removed_tags soup"
    by (rule decompose_outside_strings)
  show "removed_tags = [str ''script'', str ''style'', str ''nav'', str ''footer'', str ''header'']"
    by (simp add: removed_tags_def)
  show "collapsed False (DocScraper_extract_text_from_html e html n)"
    by (simp add: DocScraper_extract_text_from_html_def collapsed_slice_to collapsed_join
        py_split_words split: option.splits)
  show "DocScraper_extract_text_from_html e html n =
          slice_to n (py_join [32] (py_split (py_join [32]
            (filter (\<lambda>s. s \<noteq> []) (map py_strip (outside_strings removed_tags soup))))))"
    if "BeautifulSoup e html = Some soup"
    using that
    by (simp add: DocScraper_extract_text_from_html_def get_text_def decompose_outside_strings)
  show "py_split (py_join [32] (py_split t)) = py_split t"
    by (simp add: split_join_words py_split_words)
  show "DocScraper_extract_text_from_html e
            (str ''<script>dangerous()</script><p>Hello   world</p>'') 5000 = str ''Hello world''"
    if "BeautifulSoup e (str ''<script>dangerous()</script><p>Hello   world</p>'') =
        Some [Tag (str ''html'')
                [Tag (str ''head'') [Tag (str ''script'') script],
                 Tag (str ''body'') [Tag (str ''p'') [NavigableString (str ''Hello   world'')]]]]"
    using that hello_text [of script]
    by (simp add: DocScraper_extract_text_from_html_def slice_to_nonneg)
      (simp add: str_def)
qed

text \<open>The markup of the example with the tree of the lxml parser.\<close>

theorem extraction_discards_and_collapses_witness:
  "BeautifulSoup (example_env (\<lambda>u. None) hello_parser) hello_markup = Some hello_tree
   \<and> outside_strings removed_tags hello_tree = [str ''Hello   world'']
   \<and> DocScraper_extract_text_from_html (example_env (\<lambda>u. None) hello_parser) hello_markup 5000
       = str ''Hello world''"
proof -
  let ?e = "example_env (\<lambda>u. None) hello_parser"
  have p: "BeautifulSoup ?e hello_markup = Some hello_tree"
    by (simp add: example_env_def address_key_def hello_parser_def)
  have o: "outside_strings removed_tags hello_tree = [str ''Hello   world'']"
    by (simp add: removed_tags_def hello_tree_def str_def)
  note example =
    extraction_discards_and_collapses
      [of hello_tree ?e hello_markup 5000 "[]" "[OtherString (str ''dangerous()'')]",
       THEN conjunct2, THEN conjunct2, THEN conjunct2, THEN conjunct2, THEN conjunct2,
       THEN mp, OF p [unfolded hello_markup_def hello_tree_def]]
  from p o example [folded hello_markup_def] show ?thesis
    by (intro conjI)
qed

section \<open>The summary of a documentation\<close>

lemma resource_sections_titles:
  "resource_sections i rs =
     (if \<forall>r \<in> set rs. title r \<noteq> None
      then Inr (map (\<lambda>(k, r). resource_text k r (the (title r))) (zip [i ..< i + length rs] rs))
      else Inl TypeError)"
proof (induction rs arbitrary: i)
  case Nil
  then show ?case by simp
next
  case (Cons r rs)
  have "[i ..< i + length (r # rs)] = i # [Suc i ..< Suc i + length rs]"
    by (subst upt_rec) simp
  with Cons.IH [of "Suc i"] show ?case
    by (cases "title r") (auto simp: resource_section_def)
qed

lemma context_parts_titles:
  "context_parts doc =
     (if educational_resources doc = [] then Inr (primary_parts doc)
      else if \<forall>r \<in> set (take 8 (educational_resources doc)). title r \<noteq> None
      then Inr (primary_parts doc @ [resources_heading] @
                map (\<lambda>(k, r). resource_text k r (the (title r)))
                  (zip [1 ..< 1 + min (length (educational_resources doc)) 8]
                     (take 8 (educational_resources doc))))
      else Inl TypeError)"
  by (auto simp: context_parts_def resource_sections_titles slice_to_nonneg)



section \<open>The course of the loop\<close>




lemma fetched_cold:
  assumes "cold e w us" and "\<forall>t. session_get e t = net"
  shows "fetched e w us = map (\<lambda>u. (u, net u)) us"
  using assms(1)
proof (induction us arbitrary: w)
  case Nil
  then show ?case by simp
next
  case (Cons u us)
  from cold_Cons [OF Cons.prems] assms(2)
  have h: "fst (DocScraper_fetch_url e w u True) = net u"
    and c: "cold e (snd (DocScraper_fetch_url e w u True)) us"
    using fetch_url_absent [of e u w] by auto
  from Cons.IH [OF c] h show ?case
    by simp
qed

lemma sources_distinct: "distinct (addresses (sources n))"
  by (auto simp: addresses_def sources_def str_def distinct_map inj_on_def)


section \<open>Example runs on other pages\<close>

lemma example_env_cold: "cold (example_env net parser) example_world vs \<longleftrightarrow> distinct vs"
  by (simp add: cold_def example_env_def map_address_key address_key_def example_world_def
      CacheManager_init_def)

lemma example_env_net: "\<forall>t. session_get (example_env net parser) t = net"
  by (simp add: example_env_def address_key_def)

lemma script_page_scraped:
  "scrape_page script_env script_net u fb n =
     (if u = str ''d'' \<or> u = [117, 48] then Some (script_result u fb) else None)"
  by (simp add: scrape_page_def parse_page_def DocScraper_extract_text_from_html_def
      script_env_def script_net_def script_parser_def script_tree_def script_page_def
      script_result_def example_env_def address_key_def title_or_def get_text_def removed_tags_def
      py_split_def slice_to_def str_def)

lemma script_run:
  "example_run script_env (sources 1) =
     \<lparr>dart_archive = Some (script_result (str ''d'') (str ''Dart SDK Archive'')),
      flutter_releases = None,
      educational_resources = [script_result [117, 48] [117, 48]]\<rparr>"
proof -
  have "cold script_env example_world
          (DART_ARCHIVE_URL (sources 1) # FLUTTER_RELEASES_URL (sources 1) # EDUCATIONAL_URLS (sources 1))"
    using sources_distinct [of 1] by (simp add: script_env_def example_env_cold addresses_def)
  moreover have "\<forall>t. session_get script_env t = script_net"
    by (simp add: script_env_def example_env_net)
  ultimately have "example_run script_env (sources 1) =
    \<lparr>dart_archive = scrape_page script_env script_net (DART_ARCHIVE_URL (sources 1)) (str ''Dart SDK Archive'') 3000,
     flutter_releases = scrape_page script_env script_net (FLUTTER_RELEASES_URL (sources 1)) (str ''Flutter Release Notes'') 3000,
     educational_resources =
       List.map_filter (\<lambda>u. scrape_page script_env script_net u u 2000) (EDUCATIONAL_URLS (sources 1))\<rparr>"
    unfolding example_run_def by (rule get_all_documentation_cold)
  then show ?thesis
    by (simp add: script_page_scraped List.map_filter_simps sources_def str_def)
qed

lemma scrape_loop_step:
  assumes "fst (DocScraper_fetch_url e w u True) = Some h" and "h \<noteq> []"
    and "BeautifulSoup e h = Some soup"
  shows "fst (scrape_loop e w (u # us)) =
    \<lparr>url = u, title = title_or soup u, content = DocScraper_extract_text_from_html e h 2000\<rparr>
    # fst (scrape_loop e (snd (DocScraper_fetch_url e w u True)) us)"
  using assms by (auto simp: parse_page_def split: prod.splits)

section \<open>The assembled summary\<close>

lemma zip_enumerate:
  "length ys \<le> n \<Longrightarrow> zip [i ..< i + n] ys = zip [i ..< i + length ys] ys"
proof (induction ys arbitrary: i n)
  case Nil
  then show ?case by simp
next
  case (Cons y ys)
  then obtain m where n: "n = Suc m" and m: "length ys \<le> m"
    by (cases n) auto
  have "[i ..< i + Suc m] = i # [Suc i ..< Suc i + m]"
    and "[i ..< i + Suc (length ys)] = i # [Suc i ..< Suc i + length ys]"
    by (simp_all add: upt_rec)
  with Cons.IH [OF m, of "Suc i"] n show ?case
    by simp
qed

lemma build_context_summary_titles:
  "DocScraper_build_context_summary doc =
     (if \<forall>r \<in> set (take 8 (educational_resources doc)). title r \<noteq> None
      then Inr (py_join [10]
             ([summary_header]
              @ (case dart_archive doc of None \<Rightarrow> [] | Some d \<Rightarrow> [primary_section dart_heading d])
              @ (case flutter_releases doc of None \<Rightarrow> [] | Some f \<Rightarrow> [primary_section flutter_heading f])
              @ (if educational_resources doc = [] then []
                 else resources_heading
                      # map (\<lambda>(k, r). resource_text k r (the (title r)))
                          (zip [1 ..< 9] (take 8 (educational_resources doc))))))
      else Inl TypeError)"
proof -
  have p: "primary_parts doc =
       [summary_header]
       @ (case dart_archive doc of None \<Rightarrow> [] | Some d \<Rightarrow> [primary_section dart_heading d])
       @ (case flutter_releases doc of None \<Rightarrow> [] | Some f \<Rightarrow> [primary_section flutter_heading f])"
    by (simp add: primary_parts_def split: option.splits)
  have z: "zip [1 ..< 9] (take 8 (educational_resources doc)) =
      zip [1 ..< 1 + min (length (educational_resources doc)) 8] (take 8 (educational_resources doc))"
    using zip_enumerate [of "take 8 (educational_resources doc)" 8 1] by simp
  show ?thesis
    unfolding DocScraper_build_context_summary_def context_parts_titles p z
    by simp
qed

lemma length_py_join:
  "ps \<noteq> [] \<Longrightarrow> length (py_join sep ps) + length sep = (\<Sum>p \<leftarrow> ps. length p + length sep)"
  by (induction sep ps rule: py_join.induct) simp_all

lemma length_primary_section:
  "length (primary_section dart_heading d) \<le> 38 + length (url d) + 800"
  "length (primary_section flutter_heading d) \<le> 47 + length (url d) + 800"
  by (simp_all add: primary_section_def slice_to_nonneg dart_heading_def flutter_heading_def
      source_label_def content_label_def)

lemma length_resource_text:
  "k < 10 \<Longrightarrow> length (resource_text k r t) \<le> 28 + length (url r) + 60 + 600"
  by (simp add: resource_text_def slice_to_nonneg resource_label_def resource_content_label_def str_def)

lemma length_resource_parts:
  "i + length rs \<le> 10 \<Longrightarrow>
   (\<Sum>p \<leftarrow> map (\<lambda>(k, r). resource_text k r (the (title r))) (zip [i ..< i + length rs] rs).
      length p + 1)
   \<le> (\<Sum>r \<leftarrow> rs. 29 + length (url r) + 60 + 600)"
proof (induction rs arbitrary: i)
  case Nil
  then show ?case by simp
next
  case (Cons r rs)
  have u: "[i ..< i + length (r # rs)] = i # [Suc i ..< Suc i + length rs]"
    by (subst upt_rec) simp
  from Cons.prems have "i < 10" and "Suc i + length rs \<le> 10"
    by simp_all
  with Cons.IH [of "Suc i"] length_resource_text [of i r "the (title r)"] show ?case
    unfolding u by simp
qed

lemma length_build_context_summary:
  assumes "DocScraper_build_context_summary doc = Inr summary"
  shows "length summary \<le> summary_budget doc"
proof -
  let ?rs = "take 8 (educational_resources doc)"
  let ?ps = "[summary_header]
              @ (case dart_archive doc of None \<Rightarrow> [] | Some d \<Rightarrow> [primary_section dart_heading d])
              @ (case flutter_releases doc of None \<Rightarrow> [] | Some f \<Rightarrow> [primary_section flutter_heading f])
              @ (if educational_resources doc = [] then []
                 else resources_heading
                      # map (\<lambda>(k, r). resource_text k r (the (title r))) (zip [1 ..< 9] ?rs))"
  from assms have s: "summary = py_join [10] ?ps"
    by (simp add: build_context_summary_titles split: if_splits)
  have "length (py_join [10] ?ps) + length [10::nat] = (\<Sum>p \<leftarrow> ?ps. length p + length [10::nat])"
    by (rule length_py_join) simp
  then have l: "length summary + 1 = (\<Sum>p \<leftarrow> ?ps. length p + 1)"
    unfolding s by simp
  have z: "zip [1 ..< 9] ?rs = zip [1 ..< 1 + length ?rs] ?rs"
    using zip_enumerate [of ?rs 8 1] by simp
  have r: "(\<Sum>p \<leftarrow> map (\<lambda>(k, r). resource_text k r (the (title r))) (zip [1 ..< 9] ?rs). length p + 1)
      \<le> (\<Sum>r \<leftarrow> ?rs. 29 + length (url r) + 60 + 600)"
    unfolding z by (rule length_resource_parts) simp
  have d: "(\<Sum>p \<leftarrow> (case dart_archive doc of None \<Rightarrow> [] | Some d \<Rightarrow> [primary_section dart_heading d]).
              length p + 1)
      \<le> (case dart_archive doc of None \<Rightarrow> 0 | Some d \<Rightarrow> 39 + length (url d) + 800)"
    using length_primary_section(1) by (simp split: option.splits)
  have f: "(\<Sum>p \<leftarrow> (case flutter_releases doc of None \<Rightarrow> [] | Some d \<Rightarrow> [primary_section flutter_heading d]).
              length p + 1)
      \<le> (case flutter_releases doc of None \<Rightarrow> 0 | Some f \<Rightarrow> 48 + length (url f) + 800)"
    using length_primary_section(2) by (simp split: option.splits)
  have "(\<Sum>p \<leftarrow> ?ps. length p + 1) \<le> summary_budget doc + 1"
    using d f r unfolding summary_budget_def
    by (simp add: summary_header_def resources_heading_def)
  with l show ?thesis
    by simp
qed

section \<open>Example runs on the long page\<close>

lemma py_strip_word: "word w \<Longrightarrow> py_strip w = w"
proof -
  assume w: "word w"
  then have "dropWhile py_isspace w = w"
    by (cases w) (auto simp: word_def)
  moreover from w have "dropWhile py_isspace (rev w) = rev w"
    by (cases "rev w") (auto simp: word_def)
  ultimately show ?thesis
    by (simp add: py_strip_def)
qed

lemma long_words: "word long_title" "word long_text"
  by (simp_all add: word_def long_title_def long_text_def py_isspace_def)

lemma long_lengths: "length long_title = 100" "length long_text = 4000"
  by (simp_all add: long_title_def long_text_def)

lemma long_extracted:
  "py_join [32] (py_split (get_text (decompose removed_tags long_tree))) = long_title @ [32] @ long_text"
proof -
  have w: "long_title \<noteq> []" "long_text \<noteq> []"
    using long_words by (simp_all add: word_def)
  have "get_text (decompose removed_tags long_tree) = py_join [32] [long_title, long_text]"
    by (simp add: get_text_def long_tree_def removed_tags_def str_def py_strip_word long_words w)
  moreover have "py_split (py_join [32] [long_title, long_text]) = [long_title, long_text]"
    by (rule split_join_words) (simp add: long_words)
  ultimately show ?thesis
    by simp
qed

lemma long_scraped:
  "scrape_page (long_env us) (long_net us) u fb n =
     (if u \<in> set us
      then Some \<lparr>url = u, title = Some long_title, content = slice_to n (long_title @ [32] @ long_text)\<rparr>
      else None)"
proof -
  have p: "long_page \<noteq> []"
    by (simp add: long_page_def str_def)
  have b: "BeautifulSoup (long_env us) long_page = Some long_tree"
    by (simp add: long_env_def example_env_def long_parser_def)
  have t: "title_or long_tree fb = Some long_title"
    by (simp add: title_or_def long_tree_def str_def)
  show ?thesis
    by (simp add: scrape_page_def parse_page_def DocScraper_extract_text_from_html_def long_net_def
        p b t long_extracted)
qed

lemma example_world_empty: "md5_hexdigest e u |\<notin>| fmdom (files (cache example_world))"
  by (simp add: example_world_def CacheManager_init_def)

lemma example_run_cold:
  assumes "distinct (addresses sc)"
  shows "example_run (example_env net parser) sc =
    \<lparr>dart_archive =
       scrape_page (example_env net parser) net (DART_ARCHIVE_URL sc) (str ''Dart SDK Archive'') 3000,
     flutter_releases =
       scrape_page (example_env net parser) net (FLUTTER_RELEASES_URL sc) (str ''Flutter Release Notes'') 3000,
     educational_resources =
       List.map_filter (\<lambda>u. scrape_page (example_env net parser) net u u 2000) (EDUCATIONAL_URLS sc)\<rparr>"
proof -
  from assms
  have "cold (example_env net parser) example_world
          (DART_ARCHIVE_URL sc # FLUTTER_RELEASES_URL sc # EDUCATIONAL_URLS sc)"
    by (simp add: example_env_cold addresses_def)
  then show ?thesis
    unfolding example_run_def using example_env_net by (rule get_all_documentation_cold)
qed

section \<open>The cuts of the summary\<close>

text \<open>
  C10. The pages are extracted with a budget of 3000 characters (primary) and 2000
  (supplementary). For every documentation, the summary that \<open>build_context_summary\<close>
  returns is the join of the header, of a section for each primary result that carries the
  first 800 characters of its content, and of the heading and a section for each of the
  first eight supplementary results that carries the first 60 characters of its title and
  the first 600 of its content; so its length is within the literal texts, the addresses
  and these limits, whatever the lengths of the contents and titles. The summary is
  returned when the titles of the first eight supplementary results are strings.
\<close>

theorem summary_sections_are_cut_again:
  "(\<forall>d. fst (DocScraper_scrape_dart_archive e sc w) = Some d \<longrightarrow> length (content d) \<le> 3000)
   \<and> (\<forall>d. fst (DocScraper_scrape_flutter_releases e sc w) = Some d \<longrightarrow> length (content d) \<le> 3000)
   \<and> (\<forall>r \<in> set (fst (DocScraper_scrape_educational_resources e sc w)). length (content r) \<le> 2000)
   \<and> (\<forall>summary. DocScraper_build_context_summary doc = Inr summary \<longrightarrow>
        summary =
          py_join [10]
            ([summary_header]
             @ (case dart_archive doc of
                  None \<Rightarrow> []
                | Some d \<Rightarrow>
                    [[10] @ dart_heading @ [10] @ source_label @ url d @ [10] @
                     content_label @ take 800 (content d) @ [10]])
             @ (case flutter_releases doc of
                  None \<Rightarrow> []
                | Some f \<Rightarrow>
                    [[10] @ flutter_heading @ [10] @ source_label @ url f @ [10] @
                     content_label @ take 800 (content f) @ [10]])
             @ (if educational_resources doc = [] then []
                else resources_heading
                     # map (\<lambda>(k, r).
                              [10] @ resource_label @ str_nat k @ [58, 32] @ take 60 (the (title r)) @ [10] @
                              str ''URL: '' @ url r @ [10] @
                              resource_content_label @ take 600 (content r) @ [10])
                         (zip [1 ..< 9] (take 8 (educational_resources doc)))))
        \<and> length summary \<le> summary_budget doc)
   \<and> ((\<forall>r \<in> set (take 8 (educational_resources doc)). title r \<noteq> None) \<longrightarrow>
        (\<exists>summary. DocScraper_build_context_summary doc = Inr summary))"
proof (intro conjI allI impI ballI)
  show "length (content d) \<le> 3000" if "fst (DocScraper_scrape_dart_archive e sc w) = Some d" for d
    using that by (rule scrape_dart_archive_budget)
  show "length (content d) \<le> 3000" if "fst (DocScraper_scrape_flutter_releases e sc w) = Some d" for d
    using that by (rule scrape_flutter_releases_budget)
  show "length (content r) \<le> 2000"
    if "r \<in> set (fst (DocScraper_scrape_educational_resources e sc w))" for r
    using that by (simp add: DocScraper_scrape_educational_resources_def scrape_loop_content_budget)
  show "summary =
          py_join [10]
            ([summary_header]
             @ (case dart_archive doc of
                  None \<Rightarrow> []
                | Some d \<Rightarrow>
                    [[10] @ dart_heading @ [10] @ source_label @ url d @ [10] @
                     content_label @ take 800 (content d) @ [10]])
             @ (case flutter_releases doc of
                  None \<Rightarrow> []
                | Some f \<Rightarrow>
                    [[10] @ flutter_heading @ [10] @ source_label @ url f @ [10] @
                     content_label @ take 800 (content f) @ [10]])
             @ (if educational_resources doc = [] then []
                else resources_heading
                     # map (\<lambda>(k, r).
                              [10] @ resource_label @ str_nat k @ [58, 32] @ take 60 (the (title r)) @ [10] @
                              str ''URL: '' @ url r @ [10] @
                              resource_content_label @ take 600 (content r) @ [10])
                         (zip [1 ..< 9] (take 8 (educational_resources doc)))))"
    if "DocScraper_build_context_summary doc = Inr summary" for summary
  proof -
    have p: "primary_section heading d =
        [10] @ heading @ [10] @ source_label @ url d @ [10] @ content_label @ take 800 (content d) @ [10]"
      for heading d
      by (simp add: primary_section_def slice_to_nonneg)
    have r: "(\<lambda>(k, r). resource_text k r (the (title r))) =
        (\<lambda>(k, r). [10] @ resource_label @ str_nat k @ [58, 32] @ take 60 (the (title r)) @ [10] @
                   str ''URL: '' @ url r @ [10] @
                   resource_content_label @ take 600 (content r) @ [10])"
      by (simp add: resource_text_def slice_to_nonneg fun_eq_iff)
    from that show ?thesis
      unfolding build_context_summary_titles p r by (simp split: if_splits)
  qed
  show "length summary \<le> summary_budget doc"
    if "DocScraper_build_context_summary doc = Inr summary" for summary
    using that by (rule length_build_context_summary)
  show "\<exists>summary. DocScraper_build_context_summary doc = Inr summary"
    if "\<forall>r \<in> set (take 8 (educational_resources doc)). title r \<noteq> None"
    using that by (simp add: build_context_summary_titles)
qed

text \<open>
  A run in which the long page is served at both primary addresses and at one
  supplementary address: the extraction keeps 3000 and 2000 of its 4101 characters, and the
  summary keeps 800 and 600 of those, and 60 of the 100 characters of the title.
\<close>

theorem summary_sections_are_cut_again_witness:
  "fst (DocScraper_scrape_dart_archive (long_env (addresses (sources 1))) (sources 1) example_world)
     = Some \<lparr>url = str ''d'', title = Some long_title, content = long_title @ [32] @ take 2899 long_text\<rparr>
   \<and> length (long_title @ [32] @ take 2899 long_text) = 3000
   \<and> fst (DocScraper_scrape_flutter_releases (long_env (addresses (sources 1))) (sources 1) example_world)
     = Some \<lparr>url = str ''f'', title = Some long_title, content = long_title @ [32] @ take 2899 long_text\<rparr>
   \<and> fst (DocScraper_scrape_educational_resources (long_env (addresses (sources 1))) (sources 1) example_world)
     = [\<lparr>url = [117, 48], title = Some long_title, content = long_title @ [32] @ take 1899 long_text\<rparr>]
   \<and> length (long_title @ [32] @ take 1899 long_text) = 2000
   \<and> example_run (long_env (addresses (sources 1))) (sources 1) =
       \<lparr>dart_archive =
          Some \<lparr>url = str ''d'', title = Some long_title, content = long_title @ [32] @ take 2899 long_text\<rparr>,
        flutter_releases =
          Some \<lparr>url = str ''f'', title = Some long_title, content = long_title @ [32] @ take 2899 long_text\<rparr>,
        educational_resources =
          [\<lparr>url = [117, 48], title = Some long_title, content = long_title @ [32] @ take 1899 long_text\<rparr>]\<rparr>
   \<and> DocScraper_build_context_summary (example_run (long_env (addresses (sources 1))) (sources 1)) =
       Inr (py_join [10]
         [summary_header,
          [10] @ dart_heading @ [10] @ source_label @ str ''d'' @ [10] @
            content_label @ long_title @ [32] @ take 699 long_text @ [10],
          [10] @ flutter_heading @ [10] @ source_label @ str ''f'' @ [10] @
            content_label @ long_title @ [32] @ take 699 long_text @ [10],
          resources_heading,
          [10] @ resource_label @ [49] @ [58, 32] @ take 60 long_title @ [10] @
            str ''URL: '' @ [117, 48] @ [10] @
            resource_content_label @ long_title @ [32] @ take 499 long_text @ [10]])
   \<and> length (long_title @ [32] @ take 699 long_text) = 800
   \<and> length (take 60 long_title) = 60
   \<and> length (long_title @ [32] @ take 499 long_text) = 600
   \<and> summary_budget (example_run (long_env (addresses (sources 1))) (sources 1)) = 2443
   \<and> length (py_join [10]
         [summary_header,
          [10] @ dart_heading @ [10] @ source_label @ str ''d'' @ [10] @
            content_label @ long_title @ [32] @ take 699 long_text @ [10],
          [10] @ flutter_heading @ [10] @ source_label @ str ''f'' @ [10] @
            content_label @ long_title @ [32] @ take 699 long_text @ [10],
          resources_heading,
          [10] @ resource_label @ [49] @ [58, 32] @ take 60 long_title @ [10] @
            str ''URL: '' @ [117, 48] @ [10] @
            resource_content_label @ long_title @ [32] @ take 499 long_text @ [10]]) \<le> 2443"
proof -
  let ?us = "addresses (sources 1)"
  let ?e = "long_env ?us"
  let ?doc = "example_run ?e (sources 1)"
  let ?d = "\<lparr>url = str ''d'', title = Some long_title, content = long_title @ [32] @ take 2899 long_text\<rparr>"
  let ?f = "\<lparr>url = str ''f'', title = Some long_title, content = long_title @ [32] @ take 2899 long_text\<rparr>"
  let ?r = "\<lparr>url = [117, 48], title = Some long_title, content = long_title @ [32] @ take 1899 long_text\<rparr>"
  let ?summary = "py_join [10]
         [summary_header,
          [10] @ dart_heading @ [10] @ source_label @ str ''d'' @ [10] @
            content_label @ long_title @ [32] @ take 699 long_text @ [10],
          [10] @ flutter_heading @ [10] @ source_label @ str ''f'' @ [10] @
            content_label @ long_title @ [32] @ take 699 long_text @ [10],
          resources_heading,
          [10] @ resource_label @ [49] @ [58, 32] @ take 60 long_title @ [10] @
            str ''URL: '' @ [117, 48] @ [10] @
            resource_content_label @ long_title @ [32] @ take 499 long_text @ [10]]"
  note cut = summary_sections_are_cut_again [of ?e "sources 1" example_world ?doc]
  have n: "\<forall>t. session_get ?e t = long_net ?us"
    unfolding long_env_def by (rule example_env_net)
  have us: "?us = [str ''d'', str ''f'', [117, 48]]"
    by (simp add: addresses_def sources_def)
  have d: "fst (DocScraper_scrape_dart_archive ?e (sources 1) example_world) = Some ?d"
    unfolding scrape_dart_archive_cold [OF example_world_empty n] long_scraped
    by (simp add: addresses_def sources_def slice_to_nonneg long_lengths)
  have f: "fst (DocScraper_scrape_flutter_releases ?e (sources 1) example_world) = Some ?f"
    unfolding scrape_flutter_releases_cold [OF example_world_empty n] long_scraped
    by (simp add: addresses_def sources_def slice_to_nonneg long_lengths)
  have run: "?doc = \<lparr>dart_archive = Some ?d, flutter_releases = Some ?f, educational_resources = [?r]\<rparr>"
    unfolding long_env_def example_run_cold [OF sources_distinct]
    unfolding long_env_def [symmetric] long_scraped
    by (simp add: addresses_def sources_def slice_to_nonneg long_lengths List.map_filter_simps)
  have r: "fst (DocScraper_scrape_educational_resources ?e (sources 1) example_world) = [?r]"
  proof -
    have "cold ?e example_world (EDUCATIONAL_URLS (sources 1))"
      unfolding long_env_def by (simp add: example_env_cold sources_def)
    from scrape_loop_cold [OF this n] show ?thesis
      unfolding DocScraper_scrape_educational_resources_def long_scraped
      by (simp add: addresses_def sources_def slice_to_nonneg long_lengths List.map_filter_simps)
  qed
  have ld: "length (long_title @ [32] @ take 2899 long_text) = 3000"
    and lr: "length (long_title @ [32] @ take 1899 long_text) = 2000"
    and l8: "length (long_title @ [32] @ take 699 long_text) = 800"
    and l60: "length (take 60 long_title) = 60"
    and l6: "length (long_title @ [32] @ take 499 long_text) = 600"
    by (simp_all add: long_lengths)
  have ts: "\<forall>r \<in> set (take 8 (educational_resources ?doc)). title r \<noteq> None"
    unfolding run by simp
  from cut [THEN conjunct2, THEN conjunct2, THEN conjunct2, THEN conjunct2, THEN mp, OF ts]
  obtain summary where b: "DocScraper_build_context_summary ?doc = Inr summary" ..
  note both = cut [THEN conjunct2, THEN conjunct2, THEN conjunct2, THEN conjunct1, THEN spec, THEN mp, OF b]
  note s = both [THEN conjunct1]
  note l = both [THEN conjunct2]
  have s': "summary = ?summary"
    using s [unfolded run] by (simp add: long_lengths upt_rec)
  have g: "summary_budget ?doc = 2443"
    unfolding run by (simp add: summary_budget_def str_def)
  from b s' have b': "DocScraper_build_context_summary ?doc = Inr ?summary"
    by simp
  from l [unfolded s' g] have l': "length ?summary \<le> 2443" .
  from d ld f r lr run b' l8 l60 l6 g l' show ?thesis
    by (intro conjI)
qed

lemma example_world_fetch:
  "fst (DocScraper_fetch_url (example_env net parser) example_world u True) = net u"
  using fetch_url_absent [OF example_world_empty, of "example_env net parser" u]
  by (simp add: example_env_def example_world_def)

section \<open>A page with an empty title\<close>

lemma untitled_scraped:
  "scrape_page (untitled_first us) (untitled_net us) u u 2000 =
     (if u = [117, 48] then Some (untitled_result u)
      else if u \<in> set us then Some (plain_result u u)
      else None)"
  by (simp add: scrape_page_def parse_page_def DocScraper_extract_text_from_html_def
      untitled_first_def untitled_net_def untitled_parser_def untitled_page_def untitled_tree_def
      untitled_result_def plain_result_def plain_net_def plain_parser_def title_or_def get_text_def
      removed_tags_def py_strip_def py_split_def py_isspace_def slice_to_nonneg example_defs)

lemma untitled_primary:
  "u \<noteq> [117, 48] \<Longrightarrow> u \<notin> set us \<Longrightarrow> scrape_page (untitled_first us) (untitled_net us) u fb n = None"
  by (simp add: scrape_page_def untitled_net_def plain_net_def)

lemma untitled_run:
  assumes "str ''d'' \<notin> set us" and "str ''f'' \<notin> set us"
  shows "example_run (untitled_first us) (sources n) =
    \<lparr>dart_archive = None, flutter_releases = None,
     educational_resources =
       List.map_filter
         (\<lambda>u. if u = [117, 48] then Some (untitled_result u)
              else if u \<in> set us then Some (plain_result u u) else None)
         (EDUCATIONAL_URLS (sources n))\<rparr>"
proof -
  have d: "DART_ARCHIVE_URL (sources n) = str ''d''" and f: "FLUTTER_RELEASES_URL (sources n) = str ''f''"
    by (simp_all add: sources_def)
  have ne: "str ''d'' \<noteq> [117, 48]" "str ''f'' \<noteq> [117, 48]"
    by (simp_all add: str_def)
  show ?thesis
    unfolding untitled_first_def example_run_cold [OF sources_distinct]
    unfolding untitled_first_def [symmetric] untitled_scraped d f
    using assms ne by (simp add: untitled_primary)
qed

text \<open>
  C5 on a run in which the page of one of the first eight sources has an empty title
  element. Eleven supplementary sources are fetched and parsed, and the page of the first
  has the empty title: the run leaves eleven results, in the order of the list, and
  \<open>build_context_summary\<close> raises \<open>TypeError\<close> on the title of the first, where the claim
  has a summary with the sections of the first eight.
\<close>

theorem untitled_eleven_run_raises:
  "map url (educational_resources
      (example_run (untitled_first (EDUCATIONAL_URLS (sources 11))) (sources 11))) =
     EDUCATIONAL_URLS (sources 11)
   \<and> length (EDUCATIONAL_URLS (sources 11)) = 11
   \<and> map title (educational_resources
      (example_run (untitled_first (EDUCATIONAL_URLS (sources 11))) (sources 11))) =
     [None, Some [117, 49], Some [117, 50], Some [117, 51], Some [117, 52], Some [117, 53],
      Some [117, 54], Some [117, 55], Some [117, 56], Some [117, 57], Some [117, 58]]
   \<and> DocScraper_build_context_summary
        (example_run (untitled_first (EDUCATIONAL_URLS (sources 11))) (sources 11)) =
       Inl TypeError"
proof -
  let ?e = "untitled_first (EDUCATIONAL_URLS (sources 11))"
  have us: "EDUCATIONAL_URLS (sources 11) =
     [[117, 48], [117, 49], [117, 50], [117, 51], [117, 52], [117, 53], [117, 54], [117, 55],
      [117, 56], [117, 57], [117, 58]]"
    by (simp add: sources_def upt_rec)
  have r: "example_run ?e (sources 11) =
       \<lparr>dart_archive = None, flutter_releases = None,
        educational_resources =
          [untitled_result [117, 48], plain_result [117, 49] [117, 49], plain_result [117, 50] [117, 50],
           plain_result [117, 51] [117, 51], plain_result [117, 52] [117, 52],
           plain_result [117, 53] [117, 53], plain_result [117, 54] [117, 54],
           plain_result [117, 55] [117, 55], plain_result [117, 56] [117, 56],
           plain_result [117, 57] [117, 57], plain_result [117, 58] [117, 58]]\<rparr>"
    by (subst untitled_run) (simp_all add: us str_def List.map_filter_simps)
  have u: "map url (educational_resources (example_run ?e (sources 11))) = EDUCATIONAL_URLS (sources 11)"
    unfolding r by (simp add: us untitled_result_def plain_result_def)
  have l: "length (EDUCATIONAL_URLS (sources 11)) = 11"
    by (simp add: sources_def)
  have t: "map title (educational_resources (example_run ?e (sources 11))) =
     [None, Some [117, 49], Some [117, 50], Some [117, 51], Some [117, 52], Some [117, 53],
      Some [117, 54], Some [117, 55], Some [117, 56], Some [117, 57], Some [117, 58]]"
    unfolding r by (simp add: untitled_result_def plain_result_def)
  have b: "DocScraper_build_context_summary (example_run ?e (sources 11)) = Inl TypeError"
    unfolding r by (simp add: build_context_summary_titles untitled_result_def)
  from u l t b show ?thesis
    by (intro conjI)
qed

text \<open>
  C3 on a run in which the page of a succeeding source has an empty title element. Of
  three supplementary sources the second fails by a network error, the first and the third
  are fetched and parsed, and the page of the first has the empty title: the loop goes
  through the three addresses and leaves the results of the first and the third, and
  \<open>build_context_summary\<close> raises \<open>TypeError\<close> on the title of the first, where the claim
  has a context with the sections of the first and the third and no exception.
\<close>

theorem untitled_source_run_raises:
  "fetched (untitled_first [[117, 50]]) example_world (EDUCATIONAL_URLS (sources 3)) =
     [([117, 48], Some untitled_page), ([117, 49], None), ([117, 50], Some plain_page)]
   \<and> example_run (untitled_first [[117, 50]]) (sources 3) =
       \<lparr>dart_archive = None, flutter_releases = None,
        educational_resources =
          [\<lparr>url = [117, 48], title = None, content = str ''x''\<rparr>,
           \<lparr>url = [117, 50], title = Some [117, 50], content = str ''x''\<rparr>]\<rparr>
   \<and> DocScraper_build_context_summary (example_run (untitled_first [[117, 50]]) (sources 3)) =
       Inl TypeError"
proof -
  let ?e = "untitled_first [[117, 50]]"
  have us: "EDUCATIONAL_URLS (sources 3) = [[117, 48], [117, 49], [117, 50]]"
    by (simp add: sources_def upt_rec)
  have c: "cold ?e example_world (EDUCATIONAL_URLS (sources 3))"
    unfolding untitled_first_def us by (simp add: example_env_cold)
  have n: "\<forall>t. session_get ?e t = untitled_net [[117, 50]]"
    unfolding untitled_first_def by (rule example_env_net)
  have f: "fetched ?e example_world (EDUCATIONAL_URLS (sources 3)) =
     [([117, 48], Some untitled_page), ([117, 49], None), ([117, 50], Some plain_page)]"
    using fetched_cold [OF c n] unfolding us by (simp add: untitled_net_def plain_net_def)
  have r: "example_run ?e (sources 3) =
       \<lparr>dart_archive = None, flutter_releases = None,
        educational_resources =
          [\<lparr>url = [117, 48], title = None, content = str ''x''\<rparr>,
           \<lparr>url = [117, 50], title = Some [117, 50], content = str ''x''\<rparr>]\<rparr>"
    by (subst untitled_run)
      (simp_all add: us str_def List.map_filter_simps untitled_result_def plain_result_def)
  have b: "DocScraper_build_context_summary (example_run ?e (sources 3)) = Inl TypeError"
    unfolding r by (simp add: build_context_summary_titles)
  from f r b show ?thesis
    by (intro conjI)
qed

section \<open>Sources whose text is empty\<close>

text \<open>
  C8, as stated, fails on a page whose text is all in a script: the extraction gives the
  empty string, and the source has its section all the same, with nothing after the
  label of the content.
\<close>

theorem empty_text_section_counterexample:
  "example_run script_env (sources 1) =
     \<lparr>dart_archive = Some \<lparr>url = str ''d'', title = Some (str ''Dart SDK Archive''), content = []\<rparr>,
      flutter_releases = None,
      educational_resources = [\<lparr>url = [117, 48], title = Some [117, 48], content = []\<rparr>]\<rparr>
   \<and> context_parts (example_run script_env (sources 1)) =
       Inr [summary_header,
            [10] @ dart_heading @ [10] @ source_label @ str ''d'' @ [10] @ content_label @ [10],
            resources_heading,
            [10] @ resource_label @ str ''1'' @ [58, 32] @ [117, 48] @ [10] @
              str ''URL: '' @ [117, 48] @ [10] @ resource_content_label @ [10]]
   \<and> DocScraper_build_context_summary (example_run script_env (sources 1)) =
       Inr (py_join [10]
         [summary_header,
          [10] @ dart_heading @ [10] @ source_label @ str ''d'' @ [10] @ content_label @ [10],
          resources_heading,
          [10] @ resource_label @ str ''1'' @ [58, 32] @ [117, 48] @ [10] @
            str ''URL: '' @ [117, 48] @ [10] @ resource_content_label @ [10]])"
proof -
  have r: "example_run script_env (sources 1) =
     \<lparr>dart_archive = Some \<lparr>url = str ''d'', title = Some (str ''Dart SDK Archive''), content = []\<rparr>,
      flutter_releases = None,
      educational_resources = [\<lparr>url = [117, 48], title = Some [117, 48], content = []\<rparr>]\<rparr>"
    by (simp only: script_run script_result_def)
  have c: "context_parts (example_run script_env (sources 1)) =
       Inr [summary_header,
            [10] @ dart_heading @ [10] @ source_label @ str ''d'' @ [10] @ content_label @ [10],
            resources_heading,
            [10] @ resource_label @ str ''1'' @ [58, 32] @ [117, 48] @ [10] @
              str ''URL: '' @ [117, 48] @ [10] @ resource_content_label @ [10]]"
    unfolding script_run context_parts_titles
    by (simp add: script_result_def primary_parts_def primary_section_def resource_text_def
        slice_to_def str_def)
  have b: "DocScraper_build_context_summary (example_run script_env (sources 1)) =
       Inr (py_join [10]
         [summary_header,
          [10] @ dart_heading @ [10] @ source_label @ str ''d'' @ [10] @ content_label @ [10],
          resources_heading,
          [10] @ resource_label @ str ''1'' @ [58, 32] @ [117, 48] @ [10] @
            str ''URL: '' @ [117, 48] @ [10] @ resource_content_label @ [10]])"
    by (simp only: DocScraper_build_context_summary_def c sum.case)
  from r c b show ?thesis
    by (intro conjI)
qed

lemma scrape_loop_unparsed:
  assumes "fst (DocScraper_fetch_url e w u True) = Some h" and "BeautifulSoup e h = None"
  shows "fst (scrape_loop e w (u # us)) = fst (scrape_loop e (snd (DocScraper_fetch_url e w u True)) us)"
  using assms by (auto simp: parse_page_def split: prod.splits)

text \<open>
  C8, amended. For every run, a source whose fetch returned a non-empty page that the parser
  accepts has a result, whatever text the extraction gives, the empty string too; a source
  on whose page the parser raises has no result. When the titles of the first eight
  supplementary results are strings, the aggregated context is the join of the header, of
  the section of every primary result there is and, when there are supplementary results,
  of their heading and of the sections of the first eight; a result whose content is empty
  has its section with nothing after the label of the content.
\<close>

theorem sections_whatever_the_text:
  "(fst (DocScraper_fetch_url e w (DART_ARCHIVE_URL sc) True) = Some h \<and> h \<noteq> []
      \<and> BeautifulSoup e h = Some soup \<longrightarrow>
      fst (DocScraper_scrape_dart_archive e sc w) =
        Some \<lparr>url = DART_ARCHIVE_URL sc, title = title_or soup (str ''Dart SDK Archive''),
              content = DocScraper_extract_text_from_html e h 3000\<rparr>)
   \<and> (fst (DocScraper_fetch_url e w (FLUTTER_RELEASES_URL sc) True) = Some h \<and> h \<noteq> []
      \<and> BeautifulSoup e h = Some soup \<longrightarrow>
      fst (DocScraper_scrape_flutter_releases e sc w) =
        Some \<lparr>url = FLUTTER_RELEASES_URL sc, title = title_or soup (str ''Flutter Release Notes''),
              content = DocScraper_extract_text_from_html e h 3000\<rparr>)
   \<and> (fst (DocScraper_fetch_url e w u True) = Some h \<and> h \<noteq> [] \<and> BeautifulSoup e h = Some soup \<longrightarrow>
      fst (scrape_loop e w (u # us)) =
        \<lparr>url = u, title = title_or soup u, content = DocScraper_extract_text_from_html e h 2000\<rparr>
        # fst (scrape_loop e (snd (DocScraper_fetch_url e w u True)) us))
   \<and> (fst (DocScraper_fetch_url e w (DART_ARCHIVE_URL sc) True) = Some h \<and> BeautifulSoup e h = None \<longrightarrow>
      fst (DocScraper_scrape_dart_archive e sc w) = None)
   \<and> (fst (DocScraper_fetch_url e w (FLUTTER_RELEASES_URL sc) True) = Some h \<and> BeautifulSoup e h = None \<longrightarrow>
      fst (DocScraper_scrape_flutter_releases e sc w) = None)
   \<and> (fst (DocScraper_fetch_url e w u True) = Some h \<and> BeautifulSoup e h = None \<longrightarrow>
      fst (scrape_loop e w (u # us)) = fst (scrape_loop e (snd (DocScraper_fetch_url e w u True)) us))
   \<and> ((\<forall>r \<in> set (take 8 (educational_resources doc)). title r \<noteq> None) \<longrightarrow>
        DocScraper_build_context_summary doc =
          Inr (py_join [10]
            ([summary_header]
             @ (case dart_archive doc of None \<Rightarrow> [] | Some d \<Rightarrow> [primary_section dart_heading d])
             @ (case flutter_releases doc of None \<Rightarrow> [] | Some f \<Rightarrow> [primary_section flutter_heading f])
             @ (if educational_resources doc = [] then []
                else resources_heading
                     # map (\<lambda>(k, r). resource_text k r (the (title r)))
                         (zip [1 ..< 9] (take 8 (educational_resources doc)))))))
   \<and> (content d = [] \<longrightarrow>
        primary_section heading d =
          [10] @ heading @ [10] @ source_label @ url d @ [10] @ content_label @ [10])
   \<and> (content r = [] \<longrightarrow>
        resource_text k r t =
          [10] @ resource_label @ str_nat k @ [58, 32] @ slice_to 60 t @ [10] @
          str ''URL: '' @ url r @ [10] @ resource_content_label @ [10])"
proof (intro conjI impI)
  show "fst (DocScraper_scrape_dart_archive e sc w) =
        Some \<lparr>url = DART_ARCHIVE_URL sc, title = title_or soup (str ''Dart SDK Archive''),
              content = DocScraper_extract_text_from_html e h 3000\<rparr>"
    if "fst (DocScraper_fetch_url e w (DART_ARCHIVE_URL sc) True) = Some h \<and> h \<noteq> []
      \<and> BeautifulSoup e h = Some soup"
    using that by (auto simp: DocScraper_scrape_dart_archive_def parse_page_def split: prod.splits)
  show "fst (DocScraper_scrape_flutter_releases e sc w) =
        Some \<lparr>url = FLUTTER_RELEASES_URL sc, title = title_or soup (str ''Flutter Release Notes''),
              content = DocScraper_extract_text_from_html e h 3000\<rparr>"
    if "fst (DocScraper_fetch_url e w (FLUTTER_RELEASES_URL sc) True) = Some h \<and> h \<noteq> []
      \<and> BeautifulSoup e h = Some soup"
    using that by (auto simp: DocScraper_scrape_flutter_releases_def parse_page_def split: prod.splits)
  show "fst (scrape_loop e w (u # us)) =
        \<lparr>url = u, title = title_or soup u, content = DocScraper_extract_text_from_html e h 2000\<rparr>
        # fst (scrape_loop e (snd (DocScraper_fetch_url e w u True)) us)"
    if "fst (DocScraper_fetch_url e w u True) = Some h \<and> h \<noteq> [] \<and> BeautifulSoup e h = Some soup"
    using that by (intro scrape_loop_step) simp_all
  show "fst (DocScraper_scrape_dart_archive e sc w) = None"
    if "fst (DocScraper_fetch_url e w (DART_ARCHIVE_URL sc) True) = Some h \<and> BeautifulSoup e h = None"
    using that by (auto simp: DocScraper_scrape_dart_archive_def parse_page_def split: prod.splits)
  show "fst (DocScraper_scrape_flutter_releases e sc w) = None"
    if "fst (DocScraper_fetch_url e w (FLUTTER_RELEASES_URL sc) True) = Some h \<and> BeautifulSoup e h = None"
    using that by (auto simp: DocScraper_scrape_flutter_releases_def parse_page_def split: prod.splits)
  show "fst (scrape_loop e w (u # us)) = fst (scrape_loop e (snd (DocScraper_fetch_url e w u True)) us)"
    if "fst (DocScraper_fetch_url e w u True) = Some h \<and> BeautifulSoup e h = None"
    using that scrape_loop_unparsed [of e w u h us] by simp
  show "DocScraper_build_context_summary doc =
          Inr (py_join [10]
            ([summary_header]
             @ (case dart_archive doc of None \<Rightarrow> [] | Some d \<Rightarrow> [primary_section dart_heading d])
             @ (case flutter_releases doc of None \<Rightarrow> [] | Some f \<Rightarrow> [primary_section flutter_heading f])
             @ (if educational_resources doc = [] then []
                else resources_heading
                     # map (\<lambda>(k, r). resource_text k r (the (title r)))
                         (zip [1 ..< 9] (take 8 (educational_resources doc))))))"
    if "\<forall>r \<in> set (take 8 (educational_resources doc)). title r \<noteq> None"
    unfolding build_context_summary_titles using that by (rule if_P)
  show "primary_section heading d =
          [10] @ heading @ [10] @ source_label @ url d @ [10] @ content_label @ [10]"
    if "content d = []"
    using that by (simp add: primary_section_def slice_to_def)
  show "resource_text k r t =
          [10] @ resource_label @ str_nat k @ [58, 32] @ slice_to 60 t @ [10] @
          str ''URL: '' @ url r @ [10] @ resource_content_label @ [10]"
    if "content r = []"
    using that by (simp add: resource_text_def slice_to_def)
qed

text \<open>
  The page whose text is all in a script, served at every address: it is fetched and
  parsed, its extracted text is empty, each scraper has its result, and the summary of the
  run has the three sections, each with nothing after the label of the content. The plain
  page with a parser that raises on it: no scraper has a result.
\<close>

theorem sections_whatever_the_text_witness:
  "fst (DocScraper_fetch_url script_everywhere example_world (str ''d'') True) = Some script_page
   \<and> fst (DocScraper_fetch_url script_everywhere example_world (str ''f'') True) = Some script_page
   \<and> fst (DocScraper_fetch_url script_everywhere example_world [117, 48] True) = Some script_page
   \<and> script_page \<noteq> []
   \<and> BeautifulSoup script_everywhere script_page = Some script_tree
   \<and> DocScraper_extract_text_from_html script_everywhere script_page 3000 = []
   \<and> DocScraper_extract_text_from_html script_everywhere script_page 2000 = []
   \<and> fst (DocScraper_scrape_dart_archive script_everywhere (sources 1) example_world) =
       Some \<lparr>url = str ''d'', title = Some (str ''Dart SDK Archive''), content = []\<rparr>
   \<and> fst (DocScraper_scrape_flutter_releases script_everywhere (sources 1) example_world) =
       Some \<lparr>url = str ''f'', title = Some (str ''Flutter Release Notes''), content = []\<rparr>
   \<and> fst (scrape_loop script_everywhere example_world [[117, 48]]) =
       [\<lparr>url = [117, 48], title = Some [117, 48], content = []\<rparr>]
   \<and> fst (DocScraper_fetch_url unparsed_env example_world (str ''d'') True) = Some plain_page
   \<and> fst (DocScraper_fetch_url unparsed_env example_world (str ''f'') True) = Some plain_page
   \<and> fst (DocScraper_fetch_url unparsed_env example_world [117, 48] True) = Some plain_page
   \<and> BeautifulSoup unparsed_env plain_page = None
   \<and> fst (DocScraper_scrape_dart_archive unparsed_env (sources 1) example_world) = None
   \<and> fst (DocScraper_scrape_flutter_releases unparsed_env (sources 1) example_world) = None
   \<and> fst (scrape_loop unparsed_env example_world [[117, 48]]) = []
   \<and> example_run script_everywhere (sources 1) =
       \<lparr>dart_archive = Some \<lparr>url = str ''d'', title = Some (str ''Dart SDK Archive''), content = []\<rparr>,
        flutter_releases = Some \<lparr>url = str ''f'', title = Some (str ''Flutter Release Notes''), content = []\<rparr>,
        educational_resources = [\<lparr>url = [117, 48], title = Some [117, 48], content = []\<rparr>]\<rparr>
   \<and> DocScraper_build_context_summary (example_run script_everywhere (sources 1)) =
       Inr (py_join [10]
         [summary_header,
          [10] @ dart_heading @ [10] @ source_label @ str ''d'' @ [10] @ content_label @ [10],
          [10] @ flutter_heading @ [10] @ source_label @ str ''f'' @ [10] @ content_label @ [10],
          resources_heading,
          [10] @ resource_label @ [49] @ [58, 32] @ [117, 48] @ [10] @
            str ''URL: '' @ [117, 48] @ [10] @ resource_content_label @ [10]])"
proof -
  let ?e = "script_everywhere"
  let ?n = "unparsed_env"
  let ?d = "\<lparr>url = str ''d'', title = Some (str ''Dart SDK Archive''), content = []\<rparr>"
  let ?f = "\<lparr>url = str ''f'', title = Some (str ''Flutter Release Notes''), content = []\<rparr>"
  let ?r = "\<lparr>url = [117, 48], title = Some [117, 48], content = []\<rparr>"
  let ?doc = "example_run ?e (sources 1)"
  have sc: "DART_ARCHIVE_URL (sources 1) = str ''d''" "FLUTTER_RELEASES_URL (sources 1) = str ''f''"
    by (simp_all add: sources_def)
  have fe: "fst (DocScraper_fetch_url ?e example_world a True) = Some script_page" for a
    unfolding script_everywhere_def example_world_fetch by (simp add: always_def)
  have fn: "fst (DocScraper_fetch_url ?n example_world a True) = Some plain_page" for a
    unfolding unparsed_env_def example_world_fetch by (simp add: always_def)
  have p: "script_page \<noteq> []"
    by (simp add: script_page_def str_def)
  have be: "BeautifulSoup ?e script_page = Some script_tree"
    by (simp add: script_everywhere_def example_env_def script_parser_def)
  have bn: "BeautifulSoup ?n plain_page = None"
    by (simp add: unparsed_env_def example_env_def script_parser_def script_page_def plain_page_def
        str_def)
  have x: "DocScraper_extract_text_from_html ?e script_page n = []" for n
    by (simp add: DocScraper_extract_text_from_html_def be script_tree_def get_text_def
        removed_tags_def py_split_def slice_to_def str_def)
  have t: "title_or script_tree fb = Some fb" for fb
    by (simp add: title_or_def script_tree_def str_def)
  note parsed = sections_whatever_the_text
      [of ?e example_world "sources 1" script_page script_tree "[117, 48]" "[]", unfolded sc]
  note raised = sections_whatever_the_text
      [of ?n example_world "sources 1" plain_page _ "[117, 48]" "[]", unfolded sc]
  from fe [of "str ''d''"] p be
  have "fst (DocScraper_fetch_url ?e example_world (str ''d'') True) = Some script_page
      \<and> script_page \<noteq> [] \<and> BeautifulSoup ?e script_page = Some script_tree"
    by (intro conjI)
  from parsed [THEN conjunct1, THEN mp, OF this]
  have d: "fst (DocScraper_scrape_dart_archive ?e (sources 1) example_world) = Some ?d"
    by (simp add: x t)
  from fe [of "str ''f''"] p be
  have "fst (DocScraper_fetch_url ?e example_world (str ''f'') True) = Some script_page
      \<and> script_page \<noteq> [] \<and> BeautifulSoup ?e script_page = Some script_tree"
    by (intro conjI)
  from parsed [THEN conjunct2, THEN conjunct1, THEN mp, OF this]
  have f: "fst (DocScraper_scrape_flutter_releases ?e (sources 1) example_world) = Some ?f"
    by (simp add: x t)
  from fe [of "[117, 48]"] p be
  have "fst (DocScraper_fetch_url ?e example_world [117, 48] True) = Some script_page
      \<and> script_page \<noteq> [] \<and> BeautifulSoup ?e script_page = Some script_tree"
    by (intro conjI)
  from parsed [THEN conjunct2, THEN conjunct2, THEN conjunct1, THEN mp, OF this]
  have l: "fst (scrape_loop ?e example_world [[117, 48]]) = [?r]"
    by (simp add: x t)
  from fn [of "str ''d''"] bn
  have "fst (DocScraper_fetch_url ?n example_world (str ''d'') True) = Some plain_page
      \<and> BeautifulSoup ?n plain_page = None"
    by (intro conjI)
  from raised [THEN conjunct2, THEN conjunct2, THEN conjunct2, THEN conjunct1, THEN mp, OF this]
  have nd: "fst (DocScraper_scrape_dart_archive ?n (sources 1) example_world) = None" .
  from fn [of "str ''f''"] bn
  have "fst (DocScraper_fetch_url ?n example_world (str ''f'') True) = Some plain_page
      \<and> BeautifulSoup ?n plain_page = None"
    by (intro conjI)
  from raised [THEN conjunct2, THEN conjunct2, THEN conjunct2, THEN conjunct2, THEN conjunct1,
      THEN mp, OF this]
  have nf: "fst (DocScraper_scrape_flutter_releases ?n (sources 1) example_world) = None" .
  from fn [of "[117, 48]"] bn
  have "fst (DocScraper_fetch_url ?n example_world [117, 48] True) = Some plain_page
      \<and> BeautifulSoup ?n plain_page = None"
    by (intro conjI)
  from raised [THEN conjunct2, THEN conjunct2, THEN conjunct2, THEN conjunct2, THEN conjunct2,
      THEN conjunct1, THEN mp, OF this]
  have nl: "fst (scrape_loop ?n example_world [[117, 48]]) = []"
    by simp
  have s: "scrape_page ?e (always script_page) a fb n = Some \<lparr>url = a, title = Some fb, content = []\<rparr>"
    for a fb n
    by (simp add: scrape_page_def parse_page_def always_def p be x t)
  have run: "?doc = \<lparr>dart_archive = Some ?d, flutter_releases = Some ?f, educational_resources = [?r]\<rparr>"
    unfolding script_everywhere_def example_run_cold [OF sources_distinct]
    unfolding script_everywhere_def [symmetric] s
    by (simp add: sources_def List.map_filter_simps)
  have ts: "\<forall>r \<in> set (take 8 (educational_resources ?doc)). title r \<noteq> None"
    unfolding run by simp
  note built = sections_whatever_the_text [of _ _ _ _ _ _ _ ?doc,
      THEN conjunct2, THEN conjunct2, THEN conjunct2, THEN conjunct2, THEN conjunct2,
      THEN conjunct2, THEN conjunct1, THEN mp, OF ts, unfolded run]
  have cd: "content ?d = []" and cf: "content ?f = []" and cr: "content ?r = []"
    by simp_all
  note empty = sections_whatever_the_text [THEN conjunct2, THEN conjunct2, THEN conjunct2,
      THEN conjunct2, THEN conjunct2, THEN conjunct2, THEN conjunct2]
  note pd = empty [THEN conjunct1, THEN mp, OF cd, of dart_heading]
  note pf = empty [THEN conjunct1, THEN mp, OF cf, of flutter_heading]
  note pr = empty [THEN conjunct2, THEN mp, OF cr, of 1 "[117, 48]"]
  have b: "DocScraper_build_context_summary ?doc =
       Inr (py_join [10]
         [summary_header,
          [10] @ dart_heading @ [10] @ source_label @ str ''d'' @ [10] @ content_label @ [10],
          [10] @ flutter_heading @ [10] @ source_label @ str ''f'' @ [10] @ content_label @ [10],
          resources_heading,
          [10] @ resource_label @ [49] @ [58, 32] @ [117, 48] @ [10] @
            str ''URL: '' @ [117, 48] @ [10] @ resource_content_label @ [10]])"
    using built pd pf pr unfolding run
    by (simp add: upt_rec slice_to_nonneg)
  from fe [of "str ''d''"] fe [of "str ''f''"] fe [of "[117, 48]"] p be x [of 3000] x [of 2000] d f l
    fn [of "str ''d''"] fn [of "str ''f''"] fn [of "[117, 48]"] bn nd nf nl run b
  show ?thesis
    by (intro conjI)
qed

section \<open>Failing sources and empty lists\<close>








section \<open>The reference configuration\<close>

text \<open>
  \<open>DocScraper\<close> lists eleven supplementary addresses, all different from one another and
  from the two primary ones: a run on a cold cache in which all of them are served leaves
  eleven results, three more than the summary takes.
\<close>

lemma reference_configuration:
  "length (EDUCATIONAL_URLS DocScraper) = 11 \<and> distinct (addresses DocScraper)"
  by (simp add: DocScraper_def addresses_def str_def)

end
